theory Spec2Isabelle
  imports Main
begin

text \<open>
  The npm package wraps a prebuilt binary: an install script resolves the release target of
  the host, downloads the release archive (following redirects), unpacks it with \<open>tar\<close> or
  \<open>unzip\<close>, and writes a stub script in its place when any of this fails; two launcher
  scripts spawn the installed binary. The scripts are embedded here as functions on an
  explicit world (files and a trace of every call that leaves the process), with the host
  (platform, clock, network, archive tool, failing file-system calls) as a parameter. A call
  that never settles has the value \<open>None\<close>.
\<close>

section \<open>Strings, paths and numbers as the scripts use them\<close>

text \<open>
  JavaScript strings are modelled as \<open>string\<close>. \<open>startsWith\<close> is the method of that
  name, \<open>str_includes\<close> is \<open>String.prototype.includes\<close>; \<open>join_with\<close> is \<open>Array.prototype.join\<close>; \<open>show_nat\<close> is the decimal
  rendering a template literal gives a non-negative integer.
\<close>

fun startsWith :: "string \<Rightarrow> string \<Rightarrow> bool" where
  "startsWith s [] = True"
| "startsWith [] (p # ps) = False"
| "startsWith (c # cs) (p # ps) = (c = p \<and> startsWith cs ps)"

fun str_includes :: "string \<Rightarrow> string \<Rightarrow> bool" where
  "str_includes [] p = (p = [])"
| "str_includes (c # cs) p = (startsWith (c # cs) p \<or> str_includes cs p)"

fun join_with :: "string \<Rightarrow> string list \<Rightarrow> string" where
  "join_with sep [] = []"
| "join_with sep [x] = x"
| "join_with sep (x # y # ys) = x @ sep @ join_with sep (y # ys)"

definition digit :: "nat \<Rightarrow> char" where
  "digit d = ''0123456789'' ! (d mod 10)"

fun show_nat :: "nat \<Rightarrow> string" where
  "show_nat n = (if n < 10 then [digit n] else show_nat (n div 10) @ [digit (n mod 10)])"

declare show_nat.simps [simp del]

text \<open>
  A path is the list of its components below the root. \<open>path_join\<close> is \<open>path.join\<close> on an
  absolute first argument: the segments are appended and normalised, \<open>..\<close> dropping the
  component before it (the root is its own parent) and \<open>.\<close> dropping itself.
\<close>

type_synonym path = "string list"

fun normalize_onto :: "path \<Rightarrow> string list \<Rightarrow> path" where
  "normalize_onto acc [] = rev acc"
| "normalize_onto acc (s # ss) =
     (if s = ''..'' then normalize_onto (tl acc) ss
      else if s = ''.'' \<or> s = [] then normalize_onto acc ss
      else normalize_onto (s # acc) ss)"

definition path_join :: "path \<Rightarrow> string list \<Rightarrow> path" where
  "path_join base segs = normalize_onto [] (base @ segs)"

text \<open>How a path is written into a shell command line or a log line.\<close>

definition show_path :: "string \<Rightarrow> path \<Rightarrow> string" where
  "show_path platform p =
     (if platform = ''win32'' then join_with [CHR 0x5C] p else CHR ''/'' # join_with ''/'' p)"

section \<open>The world the installer acts on\<close>

datatype protocol = Https | Http

record file_entry =
  content :: string
  mode :: nat

text \<open>
  Every call that leaves the process is recorded, in order, whether or not it succeeds:
  GET requests, console lines, file-system calls and child processes.
\<close>

datatype event =
    NetGet protocol string
  | ConsoleLog string
  | ConsoleWarn string
  | ConsoleError string
  | MkdirSync path
  | WriteFileSync path string
  | UnlinkSync path
  | ChmodSync path nat
  | ExecSync string

record world =
  fs :: "path \<rightharpoonup> file_entry"
  trace :: "event list"

datatype body_outcome = BodyEnd string | BodyError string | BodyStall

record response =
  statusCode :: nat
  location :: "string option"
  body :: body_outcome

datatype net_event = Response response | RequestError string | NoReply

record tool_outcome =
  extracted :: "(path \<times> file_entry) list"
  tool_error :: "string option"

text \<open>
  What the host decides: platform and architecture (\<open>os.platform()\<close>, \<open>os.arch()\<close>), the
  script directory, the temp directory, the clock, the mode a newly created file gets, the
  version of \<open>package.json\<close>; which
  file-system call fails and with what message (asked with the number of events so far);
  which absolute URL of the right scheme a client still refuses, and with what message;
  what the archive tool does with the bytes of an archive; what the network answers to the
  GET issued as the n-th event.
\<close>

record env =
  os_platform :: string
  os_arch :: string
  dirname :: path
  os_tmpdir :: path
  date_now :: nat
  create_mode :: nat
  VERSION :: string
  io_fault :: "nat \<Rightarrow> event \<Rightarrow> string option"
  url_fault :: "protocol \<Rightarrow> string \<Rightarrow> string option"
  archive_tool :: "string \<Rightarrow> string \<Rightarrow> tool_outcome"
  net :: "nat \<Rightarrow> protocol \<Rightarrow> string \<Rightarrow> net_event"

text \<open>
  A call either returns, throws an \<open>Error\<close> with a message to its caller, ends the process
  by \<open>process.exit\<close>, or throws where nothing catches it (\<open>Uncaught\<close>): the runtime then
  ends the process with status 1.
\<close>

datatype 'a completion = Returned 'a | Threw string | Exited nat | Uncaught string

definition emit :: "event \<Rightarrow> world \<Rightarrow> world" where
  "emit e w = w\<lparr>trace := trace w @ [e]\<rparr>"

section \<open>Platform resolver\<close>

definition REPO :: string where "REPO = ''mstuart/ai-statusline''"
definition BINARY_NAME :: string where "BINARY_NAME = ''ai-statusline''"

text \<open>
  The object literal \<open>targets\<close>, in insertion order. A key built as
  \<open>platform-arch\<close> contains a hyphen, so it names no inherited property of the object and
  the lookup is the lookup in this list.
\<close>

definition targets :: "(string \<times> string) list" where
  "targets =
    [(''darwin-x64'', ''x86_64-apple-darwin''),
     (''darwin-arm64'', ''aarch64-apple-darwin''),
     (''linux-x64'', ''x86_64-unknown-linux-gnu''),
     (''linux-arm64'', ''aarch64-unknown-linux-gnu''),
     (''win32-x64'', ''x86_64-pc-windows-msvc'')]"

definition platform_key :: "string \<Rightarrow> string \<Rightarrow> string" where
  "platform_key platform arch = platform @ ''-'' @ arch"

record platform_target =
  target :: string
  platform :: string
  arch :: string

definition getPlatformTarget :: "env \<Rightarrow> world \<Rightarrow> platform_target completion \<times> world" where
  "getPlatformTarget E w =
     (let platform = os_platform E; arch = os_arch E; key = platform_key platform arch in
      case map_of targets key of
        None \<Rightarrow>
          (Exited 1,
           emit (ConsoleError (''Supported platforms: '' @ join_with '', '' (map fst targets)))
             (emit (ConsoleError (''Unsupported platform: '' @ key)) w))
      | Some t \<Rightarrow>
          (if t = [] then
             (Exited 1,
              emit (ConsoleError (''Supported platforms: '' @ join_with '', '' (map fst targets)))
                (emit (ConsoleError (''Unsupported platform: '' @ key)) w))
           else (Returned \<lparr>target = t, platform = platform, arch = arch\<rparr>, w)))"

definition getDownloadUrl :: "env \<Rightarrow> string \<Rightarrow> string" where
  "getDownloadUrl E tgt =
     (let archive = (if str_includes tgt ''windows'' then ''zip'' else ''tar.gz'') in
      ''https://github.com/'' @ REPO @ ''/releases/download/v'' @ VERSION E @ ''/'' @
      BINARY_NAME @ ''-v'' @ VERSION E @ ''-'' @ tgt @ ''.'' @ archive)"

section \<open>Download\<close>

text \<open>
  The redirect test of the response handler: a status from 300 to 399 and a truthy
  \<open>headers.location\<close>, that is a header that is there and not the empty string.
\<close>

definition redirect_target :: "response \<Rightarrow> string option" where
  "redirect_target r =
     (if 300 \<le> statusCode r \<and> statusCode r < 400 then
        (case location r of None \<Rightarrow> None | Some l \<Rightarrow> if l = [] then None else Some l)
      else None)"

definition status_error :: "nat \<Rightarrow> string \<Rightarrow> string" where
  "status_error code url = ''Download failed with status '' @ show_nat code @ '': '' @ url"

text \<open>
  \<open>client.get(url, handler)\<close> makes a URL of the string before any request goes out, and
  throws a \<open>TypeError\<close> when it cannot: when the string has no scheme (a relative
  reference), when the scheme is not the client's own, and for the absolute URLs of the right
  scheme that the host still refuses (one without a host, say). \<open>url_scheme\<close> is the scheme
  of a string as the URL parser reads it: leading control characters and spaces are dropped,
  tabs and line breaks are dropped everywhere, and then the scheme is what stands before the
  first colon, in lower case: letters, digits, \<open>+\<close>, \<open>-\<close> and \<open>.\<close> after a first letter.
\<close>

definition dq :: string where "dq = [CHR 0x22]"

definition lower_char :: "char \<Rightarrow> char" where
  "lower_char c =
     (case map_of (zip ''ABCDEFGHIJKLMNOPQRSTUVWXYZ'' ''abcdefghijklmnopqrstuvwxyz'') c of
        Some l \<Rightarrow> l
      | None \<Rightarrow> c)"

fun scan_scheme :: "string \<Rightarrow> string \<Rightarrow> string option" where
  "scan_scheme acc [] = None"
| "scan_scheme acc (c # cs) =
     (if c = CHR '':'' then Some (rev acc)
      else if lower_char c \<in> set ''abcdefghijklmnopqrstuvwxyz0123456789+-.''
      then scan_scheme (lower_char c # acc) cs
      else None)"

definition url_trim :: "string \<Rightarrow> string" where
  "url_trim u =
     filter (\<lambda>c. c \<notin> {CHR 0x09, CHR 0x0A, CHR 0x0D})
       (dropWhile (\<lambda>c. of_char c \<le> (32 :: nat)) u)"

definition url_scheme :: "string \<Rightarrow> string option" where
  "url_scheme u =
     (case url_trim u of
        [] \<Rightarrow> None
      | c # cs \<Rightarrow>
          if lower_char c \<in> set ''abcdefghijklmnopqrstuvwxyz'' then scan_scheme [] (c # cs)
          else None)"

definition scheme_name :: "protocol \<Rightarrow> string" where
  "scheme_name client = (case client of Https \<Rightarrow> ''https'' | Http \<Rightarrow> ''http'')"

definition get_refuses :: "env \<Rightarrow> protocol \<Rightarrow> string \<Rightarrow> string option" where
  "get_refuses E client u =
     (case url_scheme u of
        None \<Rightarrow> Some ''Invalid URL''
      | Some s \<Rightarrow>
          if s \<noteq> scheme_name client then
            Some (''Protocol '' @ dq @ s @ '':'' @ dq @ '' not supported. Expected '' @ dq @
                  scheme_name client @ '':'' @ dq)
          else url_fault E client u)"

text \<open>
  \<open>get_handler E url client reqUrl\<close> is \<open>client.get(reqUrl, handler)\<close> inside
  \<open>download(url)\<close>, once the client has taken the URL: the GET is issued, and the promise
  settles by an \<open>error\<close> event of the request, by the handler rejecting (\<open>Threw\<close> the message)
  or resolving (\<open>Returned\<close> the bytes), or never (\<open>None\<close>) when no answer comes, the body
  never ends or the redirects never end. On a redirect the handler calls \<open>get\<close> again, inside
  the response callback: what that call throws is caught by nobody. \<open>url\<close> stays the argument
  of \<open>download\<close>.
\<close>

partial_function (option) get_handler ::
  "env \<Rightarrow> string \<Rightarrow> protocol \<Rightarrow> string \<Rightarrow> world \<Rightarrow> (string completion \<times> world) option" where
  "get_handler E url client reqUrl w =
     (case net E (length (trace w)) client reqUrl of
        NoReply \<Rightarrow> None
      | RequestError msg \<Rightarrow> Some (Threw msg, emit (NetGet client reqUrl) w)
      | Response r \<Rightarrow>
          (case redirect_target r of
             Some redirectUrl \<Rightarrow>
               (case get_refuses E (if startsWith redirectUrl ''https'' then Https else Http)
                       redirectUrl of
                  Some err \<Rightarrow> Some (Uncaught err, emit (NetGet client reqUrl) w)
                | None \<Rightarrow>
                    get_handler E url (if startsWith redirectUrl ''https'' then Https else Http)
                      redirectUrl (emit (NetGet client reqUrl) w))
           | None \<Rightarrow>
               (if statusCode r \<noteq> 200 then
                  Some (Threw (status_error (statusCode r) url), emit (NetGet client reqUrl) w)
                else
                  (case body r of
                     BodyEnd chunks \<Rightarrow> Some (Returned chunks, emit (NetGet client reqUrl) w)
                   | BodyError msg \<Rightarrow> Some (Threw msg, emit (NetGet client reqUrl) w)
                   | BodyStall \<Rightarrow> None))))"

declare get_handler.simps [code]

text \<open>
  The first \<open>https.get(url, handler)\<close> runs inside the executor of the promise, so what it
  throws rejects the promise.
\<close>

definition download :: "env \<Rightarrow> string \<Rightarrow> world \<Rightarrow> (string completion \<times> world) option" where
  "download E url w =
     (case get_refuses E Https url of
        Some err \<Rightarrow> Some (Threw err, w)
      | None \<Rightarrow> get_handler E url Https url w)"

section \<open>File system and child processes\<close>

text \<open>
  A synchronous call that can throw returns \<open>Inl\<close> the message of the error, or \<open>Inr\<close> its
  value, with the world after it.
\<close>

type_synonym 'a io = "world \<Rightarrow> (string + 'a) \<times> world"

definition then_io :: "'a io \<Rightarrow> ('a \<Rightarrow> 'b io) \<Rightarrow> 'b io" where
  "then_io m f w = (case m w of (Inl e, w') \<Rightarrow> (Inl e, w') | (Inr x, w') \<Rightarrow> f x w')"

definition return_io :: "'a \<Rightarrow> 'a io" where
  "return_io x w = (Inr x, w)"

definition existsSync :: "world \<Rightarrow> path \<Rightarrow> bool" where
  "existsSync w p = (fs w p \<noteq> None)"

definition mkdirSync :: "env \<Rightarrow> path \<Rightarrow> unit io" where
  "mkdirSync E p w =
     (case io_fault E (length (trace w)) (MkdirSync p) of
        Some msg \<Rightarrow> (Inl msg, emit (MkdirSync p) w)
      | None \<Rightarrow> (Inr (), emit (MkdirSync p) w))"

definition writeFileSync :: "env \<Rightarrow> path \<Rightarrow> string \<Rightarrow> unit io" where
  "writeFileSync E p d w =
     (case io_fault E (length (trace w)) (WriteFileSync p d) of
        Some msg \<Rightarrow> (Inl msg, emit (WriteFileSync p d) w)
      | None \<Rightarrow>
          (Inr (),
           emit (WriteFileSync p d)
             (w\<lparr>fs := (fs w)(p \<mapsto>
                \<lparr>content = d,
                 mode = (case fs w p of None \<Rightarrow> create_mode E | Some f \<Rightarrow> mode f)\<rparr>)\<rparr>)))"

definition unlinkSync :: "env \<Rightarrow> path \<Rightarrow> unit io" where
  "unlinkSync E p w =
     (case io_fault E (length (trace w)) (UnlinkSync p) of
        Some msg \<Rightarrow> (Inl msg, emit (UnlinkSync p) w)
      | None \<Rightarrow>
          (if fs w p = None then (Inl ''ENOENT: no such file or directory'', emit (UnlinkSync p) w)
           else (Inr (), emit (UnlinkSync p) (w\<lparr>fs := (fs w)(p := None)\<rparr>))))"

definition chmodSync :: "env \<Rightarrow> path \<Rightarrow> nat \<Rightarrow> unit io" where
  "chmodSync E p m w =
     (case io_fault E (length (trace w)) (ChmodSync p m) of
        Some msg \<Rightarrow> (Inl msg, emit (ChmodSync p m) w)
      | None \<Rightarrow>
          (case fs w p of
             None \<Rightarrow> (Inl ''ENOENT: no such file or directory'', emit (ChmodSync p m) w)
           | Some f \<Rightarrow> (Inr (), emit (ChmodSync p m) (w\<lparr>fs := (fs w)(p \<mapsto> f\<lparr>mode := m\<rparr>)\<rparr>))))"

text \<open>
  \<open>execSync\<close> of an archive tool on the archive at \<open>archive\<close>, unpacking into \<open>destDir\<close>:
  the tool reads the file, puts what it extracts under \<open>destDir\<close>, and a non-zero exit is
  thrown as an error.
\<close>

fun put_files :: "path \<Rightarrow> (path \<times> file_entry) list \<Rightarrow> (path \<rightharpoonup> file_entry) \<Rightarrow> (path \<rightharpoonup> file_entry)" where
  "put_files destDir [] m = m"
| "put_files destDir ((rel, f) # rest) m = put_files destDir rest (m(destDir @ rel \<mapsto> f))"

definition execSync :: "env \<Rightarrow> string \<Rightarrow> path \<Rightarrow> path \<Rightarrow> unit io" where
  "execSync E cmd archive destDir w =
     (case fs w archive of
        None \<Rightarrow> (Inl (''Command failed: '' @ cmd), emit (ExecSync cmd) w)
      | Some f \<Rightarrow>
          (let out = archive_tool E cmd (content f);
               w' = emit (ExecSync cmd) (w\<lparr>fs := put_files destDir (extracted out) (fs w)\<rparr>)
           in case tool_error out of Some msg \<Rightarrow> (Inl msg, w') | None \<Rightarrow> (Inr (), w')))"

text \<open>\<open>try { body } finally { try { cleanup } catch (_) {} }\<close>: the cleanup always runs, what it
  throws is dropped, and the outcome is the body's.\<close>

definition finally_ignoring :: "'a io \<Rightarrow> unit io \<Rightarrow> 'a io" where
  "finally_ignoring body_io cleanup w =
     (case body_io w of (r, w') \<Rightarrow> (r, snd (cleanup w')))"

definition tmpFile_of :: "env \<Rightarrow> string \<Rightarrow> path" where
  "tmpFile_of E ext =
     path_join (os_tmpdir E) [''ai-statusline-'' @ show_nat (date_now E) @ ext]"

definition extractTarGz :: "env \<Rightarrow> string \<Rightarrow> path \<Rightarrow> unit io" where
  "extractTarGz E buffer destDir =
     (let tmpFile = tmpFile_of E ''.tar.gz'' in
      then_io (writeFileSync E tmpFile buffer) (\<lambda>_.
        finally_ignoring
          (execSync E (''tar xzf '' @ dq @ show_path (os_platform E) tmpFile @ dq @ '' -C '' @ dq @
                       show_path (os_platform E) destDir @ dq) tmpFile destDir)
          (unlinkSync E tmpFile)))"

definition extractZip :: "env \<Rightarrow> string \<Rightarrow> path \<Rightarrow> unit io" where
  "extractZip E buffer destDir =
     (let tmpFile = tmpFile_of E ''.zip'' in
      then_io (writeFileSync E tmpFile buffer) (\<lambda>_.
        finally_ignoring
          (execSync E (''unzip -o '' @ dq @ show_path (os_platform E) tmpFile @ dq @ '' -d '' @ dq @
                       show_path (os_platform E) destDir @ dq) tmpFile destDir)
          (unlinkSync E tmpFile)))"

section \<open>Installer\<close>

definition mode_0755 :: nat where
  "mode_0755 = 7 * 64 + 5 * 8 + 5"

text \<open>
  \<open>(len / 1024 / 1024).toFixed(1)\<close>: the divisions by a power of two are exact, and
  \<open>toFixed(1)\<close> takes the nearest tenth, the larger of two nearest.
\<close>

definition toFixed1_MB :: "nat \<Rightarrow> string" where
  "toFixed1_MB len =
     (let n = (10 * len + 524288) div 1048576 in show_nat (n div 10) @ ''.'' @ show_nat (n mod 10))"

definition stub_win32 :: string where
  "stub_win32 =
     ''@echo off\<newline>echo ai-statusline binary not installed. Run: cargo install --path . in the ai-statusline repo\<newline>exit /b 1\<newline>''"

definition stub_posix :: string where
  "stub_posix =
     ''#!/bin/sh\<newline>echo '' @ dq @
     ''ai-statusline binary not installed. Run: cargo install --path . in the ai-statusline repo'' @
     dq @ ''\<newline>exit 1\<newline>''"

definition stub_for :: "string \<Rightarrow> string" where
  "stub_for plat = (if plat = ''win32'' then stub_win32 else stub_posix)"

definition binDir_of :: "env \<Rightarrow> path" where
  "binDir_of E = path_join (dirname E) [''..'', ''bin'']"

definition binPath_of :: "env \<Rightarrow> string \<Rightarrow> path" where
  "binPath_of E plat =
     path_join (binDir_of E) [if plat = ''win32'' then BINARY_NAME @ ''.exe'' else BINARY_NAME]"

text \<open>The body of the \<open>try\<close> block of \<open>install\<close>, after the awaited download gave \<open>data\<close>.\<close>

definition install_extract :: "env \<Rightarrow> platform_target \<Rightarrow> string \<Rightarrow> unit io" where
  "install_extract E pt data w =
     (let binDir = binDir_of E; binPath = binPath_of E (platform pt) in
      then_io (mkdirSync E binDir) (\<lambda>_.
      then_io (if str_includes (target pt) ''windows'' then extractZip E data binDir
               else extractTarGz E data binDir) (\<lambda>_.
      then_io (if platform pt \<noteq> ''win32'' then chmodSync E binPath mode_0755 else return_io ()) (\<lambda>_.
      (\<lambda>w'. (Inr (), emit (ConsoleLog (''  Installed to '' @ show_path (os_platform E) binPath)) w')))))
        (emit (ConsoleLog (''  Downloaded '' @ toFixed1_MB (length data) @ '' MB'')) w))"

definition to_completion :: "(string + 'a) \<times> world \<Rightarrow> 'a completion \<times> world" where
  "to_completion r = (case r of (Inl msg, w) \<Rightarrow> (Threw msg, w) | (Inr x, w) \<Rightarrow> (Returned x, w))"

text \<open>
  The \<open>try\<close> block of \<open>install\<close>: it returns, throws into the \<open>catch\<close> block, or does not
  come back because the process has ended.
\<close>

definition install_try :: "env \<Rightarrow> platform_target \<Rightarrow> string \<Rightarrow> world \<Rightarrow> (unit completion \<times> world) option" where
  "install_try E pt url w =
     (case download E url w of
        None \<Rightarrow> None
      | Some (Returned data, w') \<Rightarrow> Some (to_completion (install_extract E pt data w'))
      | Some (Threw msg, w') \<Rightarrow> Some (Threw msg, w')
      | Some (Exited n, w') \<Rightarrow> Some (Exited n, w')
      | Some (Uncaught msg, w') \<Rightarrow> Some (Uncaught msg, w'))"

text \<open>The \<open>catch\<close> block of \<open>install\<close>: the warnings, then the stub.\<close>

definition install_catch :: "env \<Rightarrow> platform_target \<Rightarrow> string \<Rightarrow> unit io" where
  "install_catch E pt msg w =
     (let binDir = binDir_of E; binPath = binPath_of E (platform pt);
          stub = stub_for (platform pt) in
      then_io (mkdirSync E binDir) (\<lambda>_.
      then_io (writeFileSync E binPath stub) (\<lambda>_.
      (if platform pt \<noteq> ''win32'' then chmodSync E binPath mode_0755 else return_io ())))
        (emit (ConsoleWarn (''  https://github.com/'' @ REPO @ ''/releases''))
        (emit (ConsoleWarn ''\<newline>Or download manually from:'')
        (emit (ConsoleWarn ''  cargo install --path .'')
        (emit (ConsoleWarn ''\<newline>You can build from source instead:'')
        (emit (ConsoleWarn (''\<newline>Failed to download pre-built binary: '' @ msg)) w))))))"

definition install :: "env \<Rightarrow> world \<Rightarrow> (unit completion \<times> world) option" where
  "install E w0 =
     (case getPlatformTarget E w0 of
        (Exited n, w) \<Rightarrow> Some (Exited n, w)
      | (Threw msg, w) \<Rightarrow> Some (Threw msg, w)
      | (Uncaught msg, w) \<Rightarrow> Some (Uncaught msg, w)
      | (Returned pt, w) \<Rightarrow>
          (let binPath = binPath_of E (platform pt) in
           if existsSync w binPath then
             Some (Returned (),
                   emit (ConsoleLog (''ai-statusline binary already installed at '' @
                                     show_path (os_platform E) binPath)) w)
           else
             (let url = getDownloadUrl E (target pt);
                  w1 = emit (ConsoleLog (''  URL: '' @ url))
                         (emit (ConsoleLog (''Downloading ai-statusline v'' @ VERSION E @ '' for '' @
                                            target pt @ ''...'')) w)
              in case install_try E pt url w1 of
                   None \<Rightarrow> None
                 | Some (Returned u, w2) \<Rightarrow> Some (Returned (), w2)
                 | Some (Threw msg, w2) \<Rightarrow> Some (to_completion (install_catch E pt msg w2))
                 | Some (Exited n, w2) \<Rightarrow> Some (Exited n, w2)
                 | Some (Uncaught msg, w2) \<Rightarrow> Some (Uncaught msg, w2))))"

text \<open>
  The script: \<open>install().catch(...)\<close>. The process ends with status 0 when the promise
  resolves, with status 1 after the rejection handler, with the status given to
  \<open>process.exit\<close> when that was called, and with status 1 on an uncaught exception (the
  runtime reports the exception itself; no call of the script does, so the trace gains no
  event).
\<close>

definition installer_main :: "env \<Rightarrow> world \<Rightarrow> (nat \<times> world) option" where
  "installer_main E w0 =
     (case install E w0 of
        None \<Rightarrow> None
      | Some (Returned u, w) \<Rightarrow> Some (0, w)
      | Some (Threw msg, w) \<Rightarrow> Some (1, emit (ConsoleError (''Installation failed: '' @ msg)) w)
      | Some (Exited n, w) \<Rightarrow> Some (n, w)
      | Some (Uncaught msg, w) \<Rightarrow> Some (1, w))"

section \<open>Launchers\<close>

record spawn_error =
  code :: "string option"
  message :: string

record spawn_result =
  error :: "spawn_error option"
  status :: "nat option"

record spawn_call =
  command :: path
  args :: "string list"
  stdio :: string
  windowsHide :: bool

record launch =
  spawned :: spawn_call
  stderr :: "string list"
  exit_status :: nat

text \<open>
  \<open>bin/cli.js\<close> of the two packages differ in the package name only; \<open>launcher pkg\<close> is the
  script for the package \<open>pkg\<close>. \<open>spawnSync\<close> is the host's: it is given the call and
  answers with the result object.
\<close>

definition launcher ::
  "string \<Rightarrow> string \<Rightarrow> path \<Rightarrow> string list \<Rightarrow> (spawn_call \<Rightarrow> spawn_result) \<Rightarrow> launch" where
  "launcher pkg process_platform dir argv spawnSync =
     (let ext = (if process_platform = ''win32'' then ''.exe'' else []);
          bin = path_join dir [pkg @ ''-bin'' @ ext];
          call = \<lparr>command = bin, args = drop 2 argv, stdio = ''inherit'', windowsHide = False\<rparr>;
          result = spawnSync call
      in case error result of
           Some err \<Rightarrow>
             \<lparr>spawned = call,
              stderr = [if code err = Some ''ENOENT''
                        then pkg @ '' binary not found. Try reinstalling: npm install -g '' @ pkg
                        else message err],
              exit_status = 1\<rparr>
         | None \<Rightarrow>
             \<lparr>spawned = call, stderr = [],
              exit_status = (case status result of Some st \<Rightarrow> st | None \<Rightarrow> 1)\<rparr>)"

definition claudeline_cli :: "string \<Rightarrow> path \<Rightarrow> string list \<Rightarrow> (spawn_call \<Rightarrow> spawn_result) \<Rightarrow> launch" where
  "claudeline_cli = launcher ''claudeline''"

definition claude_status_cli :: "string \<Rightarrow> path \<Rightarrow> string list \<Rightarrow> (spawn_call \<Rightarrow> spawn_result) \<Rightarrow> launch" where
  "claude_status_cli = launcher ''claude-status''"

section \<open>Observations on a run\<close>

text \<open>The events a run added to the trace, and what they say about the run.\<close>

definition new_events :: "world \<Rightarrow> world \<Rightarrow> event list" where
  "new_events w w' = drop (length (trace w)) (trace w')"

fun is_NetGet :: "event \<Rightarrow> bool" where
  "is_NetGet (NetGet c u) = True"
| "is_NetGet e = False"

fun writes_to :: "path \<Rightarrow> event \<Rightarrow> bool" where
  "writes_to p (WriteFileSync q d) = (p = q)"
| "writes_to p e = False"

definition announce :: "env \<Rightarrow> string \<Rightarrow> world \<Rightarrow> world" where
  "announce E tgt w =
     emit (ConsoleLog (''  URL: '' @ getDownloadUrl E tgt))
       (emit (ConsoleLog (''Downloading ai-statusline v'' @ VERSION E @ '' for '' @ tgt @ ''...'')) w)"

definition client_for :: "string \<Rightarrow> protocol" where
  "client_for redirectUrl = (if startsWith redirectUrl ''https'' then Https else Http)"

definition installed_line :: "env \<Rightarrow> event" where
  "installed_line E =
     ConsoleLog (''  Installed to '' @ show_path (os_platform E) (binPath_of E (os_platform E)))"

definition already_line :: "env \<Rightarrow> event" where
  "already_line E =
     ConsoleLog (''ai-statusline binary already installed at '' @
                 show_path (os_platform E) (binPath_of E (os_platform E)))"

definition settles :: "'a completion \<Rightarrow> bool" where
  "settles c = (case c of Uncaught msg \<Rightarrow> False | Exited n \<Rightarrow> False | _ \<Rightarrow> True)"

definition supported :: "env \<Rightarrow> bool" where
  "supported E = (map_of targets (platform_key (os_platform E) (os_arch E)) \<noteq> None)"

definition plain :: "string \<Rightarrow> bool" where
  "plain s = (s \<noteq> ''..'' \<and> s \<noteq> ''.'' \<and> s \<noteq> [])"

definition resolved :: "env \<Rightarrow> string \<Rightarrow> platform_target" where
  "resolved E tgt = \<lparr>target = tgt, platform = os_platform E, arch = os_arch E\<rparr>"

definition archive_ext :: "string \<Rightarrow> string" where
  "archive_ext tgt = (if str_includes tgt ''windows'' then ''.zip'' else ''.tar.gz'')"

definition downloaded_line :: "string \<Rightarrow> event" where
  "downloaded_line data = ConsoleLog (''  Downloaded '' @ toFixed1_MB (length data) @ '' MB'')"

definition warning_lines :: "string \<Rightarrow> event list" where
  "warning_lines msg =
     [ConsoleWarn (''\<newline>Failed to download pre-built binary: '' @ msg),
      ConsoleWarn ''\<newline>You can build from source instead:'',
      ConsoleWarn ''  cargo install --path .'',
      ConsoleWarn ''\<newline>Or download manually from:'',
      ConsoleWarn ''  https://github.com/mstuart/ai-statusline/releases'']"

definition tar_command :: "env \<Rightarrow> path \<Rightarrow> string" where
  "tar_command E destDir =
     ''tar xzf '' @ dq @ show_path (os_platform E) (tmpFile_of E ''.tar.gz'') @ dq @ '' -C '' @ dq @
     show_path (os_platform E) destDir @ dq"

definition unzip_command :: "env \<Rightarrow> path \<Rightarrow> string" where
  "unzip_command E destDir =
     ''unzip -o '' @ dq @ show_path (os_platform E) (tmpFile_of E ''.zip'') @ dq @ '' -d '' @ dq @
     show_path (os_platform E) destDir @ dq"

text \<open>
  What an extraction that got its temporary file written must have done: written the file,
  run the tool, tried to delete the file, in this order and nothing else; returned or thrown
  as the tool did; and left no temporary file when the deletion did not fail.
\<close>

definition cleans_up ::
  "env \<Rightarrow> path \<Rightarrow> string \<Rightarrow> string \<Rightarrow> world \<Rightarrow> (string + unit) \<times> world \<Rightarrow> bool" where
  "cleans_up E tmpFile cmd buffer w res =
     (trace (snd res) =
        trace w @ [WriteFileSync tmpFile buffer, ExecSync cmd, UnlinkSync tmpFile] \<and>
      fst res =
        (case tool_error (archive_tool E cmd buffer) of Some msg \<Rightarrow> Inl msg | None \<Rightarrow> Inr ()) \<and>
      (io_fault E (length (trace w) + 2) (UnlinkSync tmpFile) = None \<longrightarrow>
         fs (snd res) tmpFile = None))"

definition extract_command :: "env \<Rightarrow> string \<Rightarrow> string" where
  "extract_command E tgt =
     (if str_includes tgt ''windows'' then unzip_command E (binDir_of E)
      else tar_command E (binDir_of E))"

text \<open>The three file-system calls of the fallback.\<close>

definition fallback_calls :: "env \<Rightarrow> event set" where
  "fallback_calls E =
     {MkdirSync (binDir_of E),
      WriteFileSync (binPath_of E (os_platform E)) (stub_for (os_platform E)),
      ChmodSync (binPath_of E (os_platform E)) mode_0755}"

section \<open>Example hosts\<close>

definition no_fault :: "nat \<Rightarrow> event \<Rightarrow> string option" where
  "no_fault n e = None"

definition readonly_fault :: "nat \<Rightarrow> event \<Rightarrow> string option" where
  "readonly_fault n e =
     (case e of MkdirSync p \<Rightarrow> Some ''EACCES: permission denied'' | _ \<Rightarrow> None)"

definition unlink_fault :: "nat \<Rightarrow> event \<Rightarrow> string option" where
  "unlink_fault n e =
     (case e of UnlinkSync p \<Rightarrow> Some ''EPERM: operation not permitted'' | _ \<Rightarrow> None)"

definition no_url_fault :: "protocol \<Rightarrow> string \<Rightarrow> string option" where
  "no_url_fault client u = None"

definition tool_unpacks :: "string \<Rightarrow> string \<Rightarrow> tool_outcome" where
  "tool_unpacks cmd bytes =
     \<lparr>extracted = [([''ai-statusline''], \<lparr>content = bytes, mode = 420\<rparr>)], tool_error = None\<rparr>"

definition tool_fails :: "string \<Rightarrow> string \<Rightarrow> tool_outcome" where
  "tool_fails cmd bytes = \<lparr>extracted = [], tool_error = Some (''Command failed: '' @ cmd)\<rparr>"

definition mirror_url :: string where
  "mirror_url = ''https://objects.example.net/ai-statusline.tar.gz''"

definition net_redirect_once :: "nat \<Rightarrow> protocol \<Rightarrow> string \<Rightarrow> net_event" where
  "net_redirect_once n c u =
     (if u = mirror_url then Response \<lparr>statusCode = 200, location = None, body = BodyEnd ''ARCHIVE''\<rparr>
      else Response \<lparr>statusCode = 302, location = Some mirror_url, body = BodyEnd []\<rparr>)"

definition net_404 :: "nat \<Rightarrow> protocol \<Rightarrow> string \<Rightarrow> net_event" where
  "net_404 n c u = Response \<lparr>statusCode = 404, location = None, body = BodyEnd []\<rparr>"

definition net_302_bare :: "nat \<Rightarrow> protocol \<Rightarrow> string \<Rightarrow> net_event" where
  "net_302_bare n c u = Response \<lparr>statusCode = 302, location = None, body = BodyEnd []\<rparr>"

definition net_302_empty_location :: "nat \<Rightarrow> protocol \<Rightarrow> string \<Rightarrow> net_event" where
  "net_302_empty_location n c u =
     Response \<lparr>statusCode = 302, location = Some [], body = BodyEnd []\<rparr>"

definition relative_location :: string where
  "relative_location = ''/mirror/ai-statusline.tar.gz''"

definition net_302_relative :: "nat \<Rightarrow> protocol \<Rightarrow> string \<Rightarrow> net_event" where
  "net_302_relative n c u =
     Response \<lparr>statusCode = 302, location = Some relative_location, body = BodyEnd []\<rparr>"

definition net_redirect_then_bare :: "nat \<Rightarrow> protocol \<Rightarrow> string \<Rightarrow> net_event" where
  "net_redirect_then_bare n c u =
     (if u = mirror_url then Response \<lparr>statusCode = 302, location = None, body = BodyEnd []\<rparr>
      else Response \<lparr>statusCode = 302, location = Some mirror_url, body = BodyEnd []\<rparr>)"

text \<open>The first \<open>k\<close> GETs are answered by a redirect to the mirror, the next by the archive.\<close>

definition net_chain :: "nat \<Rightarrow> nat \<Rightarrow> protocol \<Rightarrow> string \<Rightarrow> net_event" where
  "net_chain k n c u =
     (if n < k then Response \<lparr>statusCode = 302, location = Some mirror_url, body = BodyEnd []\<rparr>
      else Response \<lparr>statusCode = 200, location = None, body = BodyEnd ''ARCHIVE''\<rparr>)"

definition linux_host :: env where
  "linux_host =
     \<lparr>os_platform = ''linux'', os_arch = ''x64'', dirname = [''pkg'', ''scripts''],
      os_tmpdir = [''tmp''], date_now = 1700000000000, create_mode = 420, VERSION = ''1.2.0'',
      io_fault = no_fault, url_fault = no_url_fault, archive_tool = tool_unpacks,
      net = net_redirect_once\<rparr>"

definition win32_arm64_host :: env where
  "win32_arm64_host = linux_host\<lparr>os_platform := ''win32'', os_arch := ''arm64''\<rparr>"

definition win32_host :: env where
  "win32_host = linux_host\<lparr>os_platform := ''win32''\<rparr>"

definition readonly_host :: env where
  "readonly_host = linux_host\<lparr>io_fault := readonly_fault, net := net_404\<rparr>"

definition broken_archive_host :: env where
  "broken_archive_host = linux_host\<lparr>io_fault := unlink_fault, archive_tool := tool_fails\<rparr>"

definition stub_host :: env where
  "stub_host = linux_host\<lparr>net := net_404\<rparr>"

definition bare_redirect_host :: env where
  "bare_redirect_host = linux_host\<lparr>net := net_302_bare\<rparr>"

definition empty_location_host :: env where
  "empty_location_host = linux_host\<lparr>net := net_302_empty_location\<rparr>"

definition relative_redirect_host :: env where
  "relative_redirect_host = linux_host\<lparr>net := net_302_relative\<rparr>"

definition redirect_then_bare_host :: env where
  "redirect_then_bare_host = linux_host\<lparr>net := net_redirect_then_bare\<rparr>"

definition chain_host :: "nat \<Rightarrow> env" where
  "chain_host k = linux_host\<lparr>net := net_chain k\<rparr>"

definition installed_world :: world where
  "installed_world =
     \<lparr>fs = Map.empty([''pkg'', ''bin'', ''ai-statusline''] \<mapsto> \<lparr>content = ''ELF'', mode = 493\<rparr>),
      trace = []\<rparr>"

definition release_url :: string where
  "release_url =
     ''https://github.com/mstuart/ai-statusline/releases/download/v1.2.0/ai-statusline-v1.2.0-x86_64-unknown-linux-gnu.tar.gz''"

definition empty_world :: world where
  "empty_world = \<lparr>fs = Map.empty, trace = []\<rparr>"

definition spawn_exits_3 :: "spawn_call \<Rightarrow> spawn_result" where
  "spawn_exits_3 c = \<lparr>error = None, status = Some 3\<rparr>"

definition spawn_killed :: "spawn_call \<Rightarrow> spawn_result" where
  "spawn_killed c = \<lparr>error = None, status = None\<rparr>"

definition spawn_enoent :: "spawn_call \<Rightarrow> spawn_result" where
  "spawn_enoent c =
     \<lparr>error = Some \<lparr>code = Some ''ENOENT'', message = ''spawnSync claudeline-bin ENOENT''\<rparr>,
      status = None\<rparr>"

definition spawn_eacces :: "spawn_call \<Rightarrow> spawn_result" where
  "spawn_eacces c =
     \<lparr>error = Some \<lparr>code = Some ''EACCES'', message = ''spawnSync claudeline-bin EACCES''\<rparr>,
      status = None\<rparr>"

section \<open>Facts about the helpers\<close>

lemma show_nat_numeral [simp]:
  "show_nat (numeral k) =
     (if (numeral k :: nat) < 10 then [digit (numeral k)]
      else show_nat (numeral k div 10) @ [digit (numeral k mod 10)])"
  by (rule show_nat.simps)

lemma show_nat_small [simp]: "show_nat 0 = ''0''" "show_nat (Suc 0) = ''1''"
  by (simp_all add: show_nat.simps digit_def)

lemma startsWith_iff: "startsWith s p \<longleftrightarrow> (\<exists>r. s = p @ r)"
  by (induction s p rule: startsWith.induct) auto

lemma str_includes_iff: "str_includes s p \<longleftrightarrow> (\<exists>a b. s = a @ p @ b)"
proof (induction s)
  case Nil
  then show ?case by simp
next
  case (Cons c cs)
  show ?case
  proof
    assume "str_includes (c # cs) p"
    then consider "startsWith (c # cs) p" | "str_includes cs p" by auto
    then show "\<exists>a b. c # cs = a @ p @ b"
    proof cases
      case 1
      then obtain r where "c # cs = p @ r" by (auto simp: startsWith_iff)
      then have "c # cs = [] @ p @ r" by simp
      then show ?thesis by blast
    next
      case 2
      then obtain a b where "cs = a @ p @ b" using Cons.IH by blast
      then have "c # cs = (c # a) @ p @ b" by simp
      then show ?thesis by blast
    qed
  next
    assume "\<exists>a b. c # cs = a @ p @ b"
    then obtain a b where ab: "c # cs = a @ p @ b" by blast
    show "str_includes (c # cs) p"
    proof (cases a)
      case Nil
      with ab have "startsWith (c # cs) p" by (auto simp: startsWith_iff)
      then show ?thesis by simp
    next
      case (Cons x a')
      with ab have "cs = a' @ p @ b" by simp
      then have "str_includes cs p" using Cons.IH by blast
      then show ?thesis by simp
    qed
  qed
qed

section \<open>Platform resolver: the table\<close>

lemma targets_nonempty: "map_of targets k = Some t \<Longrightarrow> t \<noteq> []"
  by (auto simp: targets_def split: if_splits)

lemma targets_None:
  "k \<notin> {''darwin-x64'', ''darwin-arm64'', ''linux-x64'', ''linux-arm64'', ''win32-x64''} \<Longrightarrow>
   map_of targets k = None"
  by (simp add: targets_def)

lemma getPlatformTarget_Some:
  "map_of targets (platform_key (os_platform E) (os_arch E)) = Some t \<Longrightarrow>
   getPlatformTarget E w =
     (Returned \<lparr>target = t, platform = os_platform E, arch = os_arch E\<rparr>, w)"
  by (simp add: getPlatformTarget_def Let_def targets_nonempty)

lemma supported_line: "join_with '', '' (map fst targets) =
   ''darwin-x64, darwin-arm64, linux-x64, linux-arm64, win32-x64''"
  by (simp add: targets_def)

lemma getPlatformTarget_None:
  assumes "map_of targets (platform_key (os_platform E) (os_arch E)) = None"
  shows "getPlatformTarget E w =
       (Exited 1,
        w\<lparr>trace := trace w @
           [ConsoleError (''Unsupported platform: '' @ platform_key (os_platform E) (os_arch E)),
            ConsoleError ''Supported platforms: darwin-x64, darwin-arm64, linux-x64, linux-arm64, win32-x64'']\<rparr>)"
  using assms by (simp add: getPlatformTarget_def Let_def emit_def supported_line)

lemma documented_targets:
  assumes "(p, a, t) \<in>
       {(''darwin'', ''x64'', ''x86_64-apple-darwin''),
        (''darwin'', ''arm64'', ''aarch64-apple-darwin''),
        (''linux'', ''x64'', ''x86_64-unknown-linux-gnu''),
        (''linux'', ''arm64'', ''aarch64-unknown-linux-gnu''),
        (''win32'', ''x64'', ''x86_64-pc-windows-msvc'')}"
  shows "map_of targets (platform_key p a) = Some t"
proof -
  from assms have
    "(p = ''darwin'' \<and> a = ''x64'' \<and> t = ''x86_64-apple-darwin'') \<or>
     (p = ''darwin'' \<and> a = ''arm64'' \<and> t = ''aarch64-apple-darwin'') \<or>
     (p = ''linux'' \<and> a = ''x64'' \<and> t = ''x86_64-unknown-linux-gnu'') \<or>
     (p = ''linux'' \<and> a = ''arm64'' \<and> t = ''aarch64-unknown-linux-gnu'') \<or>
     (p = ''win32'' \<and> a = ''x64'' \<and> t = ''x86_64-pc-windows-msvc'')"
    by simp
  then show ?thesis
    by (elim disjE conjE) (simp_all add: targets_def platform_key_def)
qed

text \<open>
  C2, as the code has it. The table of \<open>getPlatformTarget\<close> has five keys, not the six of
  darwin/linux/win32 by x64/arm64: for each of the five, the call returns the target of the
  table with the platform and architecture it read; for every key that is not one of the
  five, \<open>win32-arm64\<close> among them, it prints the key it could not map, then the five
  supported keys, and ends the process with status 1.
\<close>

theorem getPlatformTarget_table:
  "((os_platform E, os_arch E, t) \<in>
       {(''darwin'', ''x64'', ''x86_64-apple-darwin''),
        (''darwin'', ''arm64'', ''aarch64-apple-darwin''),
        (''linux'', ''x64'', ''x86_64-unknown-linux-gnu''),
        (''linux'', ''arm64'', ''aarch64-unknown-linux-gnu''),
        (''win32'', ''x64'', ''x86_64-pc-windows-msvc'')} \<longrightarrow>
     getPlatformTarget E w =
       (Returned \<lparr>target = t, platform = os_platform E, arch = os_arch E\<rparr>, w)) \<and>
   (platform_key (os_platform E) (os_arch E) \<notin>
       {''darwin-x64'', ''darwin-arm64'', ''linux-x64'', ''linux-arm64'', ''win32-x64''} \<longrightarrow>
     getPlatformTarget E w =
       (Exited 1,
        w\<lparr>trace := trace w @
           [ConsoleError (''Unsupported platform: '' @ platform_key (os_platform E) (os_arch E)),
            ConsoleError ''Supported platforms: darwin-x64, darwin-arm64, linux-x64, linux-arm64, win32-x64'']\<rparr>))"
proof (intro conjI impI)
  assume h: "(os_platform E, os_arch E, t) \<in>
       {(''darwin'', ''x64'', ''x86_64-apple-darwin''),
        (''darwin'', ''arm64'', ''aarch64-apple-darwin''),
        (''linux'', ''x64'', ''x86_64-unknown-linux-gnu''),
        (''linux'', ''arm64'', ''aarch64-unknown-linux-gnu''),
        (''win32'', ''x64'', ''x86_64-pc-windows-msvc'')}"
  show "getPlatformTarget E w =
       (Returned \<lparr>target = t, platform = os_platform E, arch = os_arch E\<rparr>, w)"
    by (rule getPlatformTarget_Some [OF documented_targets [OF h]])
next
  assume h: "platform_key (os_platform E) (os_arch E) \<notin>
       {''darwin-x64'', ''darwin-arm64'', ''linux-x64'', ''linux-arm64'', ''win32-x64''}"
  show "getPlatformTarget E w =
       (Exited 1,
        w\<lparr>trace := trace w @
           [ConsoleError (''Unsupported platform: '' @ platform_key (os_platform E) (os_arch E)),
            ConsoleError ''Supported platforms: darwin-x64, darwin-arm64, linux-x64, linux-arm64, win32-x64'']\<rparr>)"
    by (rule getPlatformTarget_None [OF targets_None [OF h]])
qed

theorem getPlatformTarget_table_witness:
  "getPlatformTarget linux_host empty_world =
     (Returned \<lparr>target = ''x86_64-unknown-linux-gnu'', platform = ''linux'', arch = ''x64''\<rparr>,
      empty_world) \<and>
   getPlatformTarget (linux_host\<lparr>os_arch := ''riscv64''\<rparr>) empty_world =
     (Exited 1,
      empty_world\<lparr>trace :=
         [ConsoleError ''Unsupported platform: linux-riscv64'',
          ConsoleError ''Supported platforms: darwin-x64, darwin-arm64, linux-x64, linux-arm64, win32-x64'']\<rparr>)"
  using getPlatformTarget_table [of linux_host "''x86_64-unknown-linux-gnu''" empty_world]
    getPlatformTarget_table [of "linux_host\<lparr>os_arch := ''riscv64''\<rparr>" "[]" empty_world]
  by (simp add: linux_host_def empty_world_def platform_key_def)

text \<open>
  C2 as stated fails on the key \<open>win32-arm64\<close>, which is in darwin/linux/win32 by
  x64/arm64: no target is returned, the process ends with status 1.
\<close>

theorem win32_arm64_unsupported:
  "getPlatformTarget win32_arm64_host empty_world =
     (Exited 1,
      empty_world\<lparr>trace :=
         [ConsoleError ''Unsupported platform: win32-arm64'',
          ConsoleError ''Supported platforms: darwin-x64, darwin-arm64, linux-x64, linux-arm64, win32-x64'']\<rparr>)"
  by (simp add: getPlatformTarget_def Let_def emit_def supported_line platform_key_def
      win32_arm64_host_def linux_host_def empty_world_def targets_def)

section \<open>The download URL\<close>

text \<open>
  C5. The URL is the repository's release URL for the tag \<open>v<version>\<close> and the file
  \<open><binaryName>-v<version>-<target>.<archiveExt>\<close>, with the version of \<open>package.json\<close>; the
  extension is \<open>zip\<close> when \<open>windows\<close> occurs in the target and \<open>tar.gz\<close> otherwise; for the
  target \<open>x86_64-unknown-linux-gnu\<close> and the version \<open>1.2.0\<close> it is the URL of the example.
\<close>

theorem getDownloadUrl_format:
  "getDownloadUrl E tgt =
     ''https://github.com/'' @ REPO @ ''/releases/download/v'' @ VERSION E @ ''/'' @
     BINARY_NAME @ ''-v'' @ VERSION E @ ''-'' @ tgt @ ''.'' @
     (if \<exists>a b. tgt = a @ ''windows'' @ b then ''zip'' else ''tar.gz'') \<and>
   getDownloadUrl (E\<lparr>VERSION := ''1.2.0''\<rparr>) ''x86_64-unknown-linux-gnu'' =
     ''https://github.com/mstuart/ai-statusline/releases/download/v1.2.0/ai-statusline-v1.2.0-x86_64-unknown-linux-gnu.tar.gz''"
proof
  show "getDownloadUrl E tgt =
     ''https://github.com/'' @ REPO @ ''/releases/download/v'' @ VERSION E @ ''/'' @
     BINARY_NAME @ ''-v'' @ VERSION E @ ''-'' @ tgt @ ''.'' @
     (if \<exists>a b. tgt = a @ ''windows'' @ b then ''zip'' else ''tar.gz'')"
    by (simp add: getDownloadUrl_def str_includes_iff)
  show "getDownloadUrl (E\<lparr>VERSION := ''1.2.0''\<rparr>) ''x86_64-unknown-linux-gnu'' =
     ''https://github.com/mstuart/ai-statusline/releases/download/v1.2.0/ai-statusline-v1.2.0-x86_64-unknown-linux-gnu.tar.gz''"
    by (simp add: getDownloadUrl_def REPO_def BINARY_NAME_def)
qed

theorem getDownloadUrl_format_witness:
  "getDownloadUrl linux_host ''x86_64-pc-windows-msvc'' =
     ''https://github.com/mstuart/ai-statusline/releases/download/v1.2.0/ai-statusline-v1.2.0-x86_64-pc-windows-msvc.zip''"
proof -
  have "''x86_64-pc-windows-msvc'' = ''x86_64-pc-'' @ ''windows'' @ ''-msvc''" by simp
  then have "\<exists>a b. ''x86_64-pc-windows-msvc'' = a @ ''windows'' @ b" by (intro exI)
  then show ?thesis
    using getDownloadUrl_format [of linux_host "''x86_64-pc-windows-msvc''"]
    by (simp add: linux_host_def REPO_def BINARY_NAME_def)
qed

section \<open>Launchers\<close>

text \<open>
  C9. Each launcher spawns the binary beside it with the arguments after the first two of
  \<open>process.argv\<close>, unchanged, and inherited standard streams. When the spawn gives no error
  it prints nothing and exits with the child's status, or with 1 when there is none. When the
  spawn gives an error it exits with 1, after printing the fixed not-found line when the
  error code is \<open>ENOENT\<close> and the error's own message otherwise.
\<close>

theorem launcher_forwards:
  "claudeline_cli = launcher ''claudeline'' \<and> claude_status_cli = launcher ''claude-status'' \<and>
   spawned (launcher pkg plat dir argv sp) =
     \<lparr>command = path_join dir [pkg @ ''-bin'' @ (if plat = ''win32'' then ''.exe'' else [])],
      args = drop 2 argv, stdio = ''inherit'', windowsHide = False\<rparr> \<and>
   (error (sp (spawned (launcher pkg plat dir argv sp))) = None \<longrightarrow>
      stderr (launcher pkg plat dir argv sp) = [] \<and>
      exit_status (launcher pkg plat dir argv sp) =
        (case status (sp (spawned (launcher pkg plat dir argv sp))) of Some st \<Rightarrow> st | None \<Rightarrow> 1)) \<and>
   (\<forall>err. error (sp (spawned (launcher pkg plat dir argv sp))) = Some err \<longrightarrow>
      exit_status (launcher pkg plat dir argv sp) = 1 \<and>
      stderr (launcher pkg plat dir argv sp) =
        [if code err = Some ''ENOENT''
         then pkg @ '' binary not found. Try reinstalling: npm install -g '' @ pkg
         else message err])"
  by (auto simp: launcher_def Let_def claudeline_cli_def claude_status_cli_def split: option.splits)

theorem launcher_forwards_witness:
  "args (spawned (launcher ''claudeline'' ''linux'' [''pkg'', ''bin''] [''node'', ''cli.js'', ''--json'', ''a b''] spawn_exits_3)) =
     [''--json'', ''a b''] \<and>
   exit_status (launcher ''claudeline'' ''linux'' [''pkg'', ''bin''] [''node'', ''cli.js'', ''--json'', ''a b''] spawn_exits_3) = 3 \<and>
   exit_status (launcher ''claudeline'' ''linux'' [''pkg'', ''bin''] [''node'', ''cli.js''] spawn_killed) = 1 \<and>
   stderr (launcher ''claudeline'' ''linux'' [''pkg'', ''bin''] [''node'', ''cli.js''] spawn_enoent) =
     [''claudeline binary not found. Try reinstalling: npm install -g claudeline''] \<and>
   exit_status (launcher ''claudeline'' ''linux'' [''pkg'', ''bin''] [''node'', ''cli.js''] spawn_enoent) = 1 \<and>
   stderr (launcher ''claudeline'' ''linux'' [''pkg'', ''bin''] [''node'', ''cli.js''] spawn_eacces) =
     [''spawnSync claudeline-bin EACCES'']"
  using launcher_forwards [of "''claudeline''" "''linux''" "[''pkg'', ''bin'']" "[''node'', ''cli.js'', ''--json'', ''a b'']" spawn_exits_3, THEN conjunct2, THEN conjunct2]
    launcher_forwards [of "''claudeline''" "''linux''" "[''pkg'', ''bin'']" "[''node'', ''cli.js'']" spawn_killed, THEN conjunct2, THEN conjunct2]
    launcher_forwards [of "''claudeline''" "''linux''" "[''pkg'', ''bin'']" "[''node'', ''cli.js'']" spawn_enoent, THEN conjunct2, THEN conjunct2]
    launcher_forwards [of "''claudeline''" "''linux''" "[''pkg'', ''bin'']" "[''node'', ''cli.js'']" spawn_eacces, THEN conjunct2, THEN conjunct2]
  by (simp add: spawn_exits_3_def spawn_killed_def spawn_enoent_def spawn_eacces_def)

section \<open>Download: one response at a time\<close>

lemma redirect_target_Some:
  "redirect_target r = Some l \<longleftrightarrow>
     300 \<le> statusCode r \<and> statusCode r < 400 \<and> location r = Some l \<and> l \<noteq> []"
  by (auto simp: redirect_target_def split: option.splits)

lemma redirect_target_None:
  "redirect_target r = None \<longleftrightarrow>
     \<not> (300 \<le> statusCode r \<and> statusCode r < 400) \<or> location r = None \<or> location r = Some []"
  by (auto simp: redirect_target_def split: option.splits)


lemma get_handler_refused:
  assumes "net E (length (trace w)) client reqUrl = Response r" "redirect_target r = Some l"
    "get_refuses E (client_for l) l = Some err"
  shows "get_handler E url client reqUrl w = Some (Uncaught err, emit (NetGet client reqUrl) w)"
  using assms unfolding client_for_def by (subst get_handler.simps) simp



lemma get_handler_error:
  assumes "net E (length (trace w)) client reqUrl = RequestError msg"
  shows "get_handler E url client reqUrl w = Some (Threw msg, emit (NetGet client reqUrl) w)"
  using assms by (subst get_handler.simps) simp

lemma length_trace_emit [simp]: "length (trace (emit e w)) = Suc (length (trace w))"
  by (simp add: emit_def)

lemma fs_emit [simp]: "fs (emit e w) = fs w"
  by (simp add: emit_def)

lemma trace_emit [simp]: "trace (emit e w) = trace w @ [e]"
  by (simp add: emit_def)

text \<open>
  A download that comes to an end has left the files alone and added GET requests only; it
  never ends by \<open>process.exit\<close>.
\<close>

lemma get_handler_effects_raw:
  assumes "get_handler E url client reqUrl w = Some y"
  shows "fs (snd y) = fs w \<and>
         (\<exists>evs. trace (snd y) = trace w @ evs \<and> evs \<noteq> [] \<and> list_all is_NetGet evs) \<and>
         (\<forall>n. fst y \<noteq> Exited n)"
proof (rule get_handler.raw_induct
    [where P = "\<lambda>E url client reqUrl w y. fs (snd y) = fs w \<and>
         (\<exists>evs. trace (snd y) = trace w @ evs \<and> evs \<noteq> [] \<and> list_all is_NetGet evs) \<and>
         (\<forall>n. fst y \<noteq> Exited n)",
     OF _ assms])
  fix h :: "env \<Rightarrow> string \<Rightarrow> protocol \<Rightarrow> string \<Rightarrow> world \<Rightarrow> (string completion \<times> world) option"
  fix E url client reqUrl w y
  assume IH: "\<And>E url client reqUrl w y. h E url client reqUrl w = Some y \<Longrightarrow>
      fs (snd y) = fs w \<and>
      (\<exists>evs. trace (snd y) = trace w @ evs \<and> evs \<noteq> [] \<and> list_all is_NetGet evs) \<and>
      (\<forall>n. fst y \<noteq> Exited n)"
  assume step: "(case net E (length (trace w)) client reqUrl of
      Response r \<Rightarrow>
        (case redirect_target r of
           None \<Rightarrow>
             if statusCode r \<noteq> 200
             then Some (Threw (status_error (statusCode r) url), emit (NetGet client reqUrl) w)
             else (case body r of
                     BodyEnd chunks \<Rightarrow> Some (Returned chunks, emit (NetGet client reqUrl) w)
                   | BodyError msg \<Rightarrow> Some (Threw msg, emit (NetGet client reqUrl) w)
                   | BodyStall \<Rightarrow> None)
         | Some redirectUrl \<Rightarrow>
             (case get_refuses E (if startsWith redirectUrl ''https'' then Https else Http)
                     redirectUrl of
                None \<Rightarrow>
                  h E url (if startsWith redirectUrl ''https'' then Https else Http) redirectUrl
                    (emit (NetGet client reqUrl) w)
              | Some err \<Rightarrow> Some (Uncaught err, emit (NetGet client reqUrl) w)))
    | RequestError msg \<Rightarrow> Some (Threw msg, emit (NetGet client reqUrl) w)
    | NoReply \<Rightarrow> None) = Some y"
  have one: "\<And>c. (\<forall>n. c \<noteq> Exited n) \<Longrightarrow> y = (c, emit (NetGet client reqUrl) w) \<Longrightarrow>
      fs (snd y) = fs w \<and>
      (\<exists>evs. trace (snd y) = trace w @ evs \<and> evs \<noteq> [] \<and> list_all is_NetGet evs) \<and>
      (\<forall>n. fst y \<noteq> Exited n)"
    by simp
  show "fs (snd y) = fs w \<and>
      (\<exists>evs. trace (snd y) = trace w @ evs \<and> evs \<noteq> [] \<and> list_all is_NetGet evs) \<and>
      (\<forall>n. fst y \<noteq> Exited n)"
  proof (cases "net E (length (trace w)) client reqUrl")
    case NoReply
    with step show ?thesis by simp
  next
    case (RequestError msg)
    with step have "y = (Threw msg, emit (NetGet client reqUrl) w)" by auto
    with one [of "Threw msg"] show ?thesis by simp
  next
    case (Response r)
    show ?thesis
    proof (cases "redirect_target r")
      case (Some l)
      show ?thesis
      proof (cases "get_refuses E (if startsWith l ''https'' then Https else Http) l")
        case (Some err)
        with \<open>redirect_target r = Some l\<close> Response step
        have "y = (Uncaught err, emit (NetGet client reqUrl) w)" by auto
        with one [of "Uncaught err"] show ?thesis by simp
      next
        case None
        with \<open>redirect_target r = Some l\<close> Response step have
          "h E url (if startsWith l ''https'' then Https else Http) l
             (emit (NetGet client reqUrl) w) = Some y"
          by simp
        from IH [OF this] obtain evs where
          f: "fs (snd y) = fs w" and t: "trace (snd y) = (trace w @ [NetGet client reqUrl]) @ evs"
          and n: "list_all is_NetGet evs" and x: "\<forall>n. fst y \<noteq> Exited n"
          by auto
        from t n have "trace (snd y) = trace w @ (NetGet client reqUrl # evs) \<and>
          NetGet client reqUrl # evs \<noteq> [] \<and> list_all is_NetGet (NetGet client reqUrl # evs)"
          by simp
        then have "\<exists>evs. trace (snd y) = trace w @ evs \<and> evs \<noteq> [] \<and> list_all is_NetGet evs"
          by (rule exI)
        with f x show ?thesis by simp
      qed
    next
      case None
      with Response step have "\<exists>c. (\<forall>n. c \<noteq> Exited n) \<and> y = (c, emit (NetGet client reqUrl) w)"
        by (auto split: if_splits body_outcome.splits)
      with one show ?thesis by blast
    qed
  qed
qed

lemma download_effects:
  assumes "download E url w = Some (res, w')"
  shows "fs w' = fs w" "\<exists>evs. trace w' = trace w @ evs \<and> list_all is_NetGet evs"
    "\<forall>n. res \<noteq> Exited n"
proof -
  show "fs w' = fs w"
    using get_handler_effects_raw [of E url Https url w "(res, w')"] assms
    by (auto simp: download_def split: option.splits)
  show "\<forall>n. res \<noteq> Exited n"
    using get_handler_effects_raw [of E url Https url w "(res, w')"] assms
    by (auto simp: download_def split: option.splits)
  show "\<exists>evs. trace w' = trace w @ evs \<and> list_all is_NetGet evs"
  proof (cases "get_refuses E Https url")
    case (Some err)
    with assms have "trace w' = trace w @ [] \<and> list_all is_NetGet []"
      by (simp add: download_def)
    then show ?thesis by (rule exI)
  next
    case None
    with assms have "get_handler E url Https url w = Some (res, w')" by (simp add: download_def)
    from get_handler_effects_raw [OF this] show ?thesis by auto
  qed
qed


section \<open>Paths\<close>

lemma normalize_onto_snoc:
  "plain s \<Longrightarrow> normalize_onto acc (xs @ [s]) = normalize_onto acc xs @ [s]"
  by (induction xs arbitrary: acc) (simp_all add: plain_def)

lemma set_tl_subset: "x \<in> set (tl xs) \<Longrightarrow> x \<in> set xs"
  by (cases xs) simp_all

lemma normalize_onto_plain:
  "\<forall>x \<in> set acc. plain x \<Longrightarrow> \<forall>x \<in> set (normalize_onto acc xs). plain x"
proof (induction xs arbitrary: acc)
  case Nil
  then show ?case by simp
next
  case (Cons s ss)
  show ?case
  proof (cases "s = ''..''")
    case True
    have "\<forall>x \<in> set (tl acc). plain x" using Cons.prems set_tl_subset by fast
    from Cons.IH [OF this] have "\<forall>x \<in> set (normalize_onto (tl acc) ss). plain x" .
    moreover have "normalize_onto acc (s # ss) = normalize_onto (tl acc) ss"
      using True by simp
    ultimately show ?thesis by (simp only:)
  next
    case up: False
    show ?thesis
    proof (cases "s = ''.'' \<or> s = []")
      case True
      from Cons.IH [OF Cons.prems] have "\<forall>x \<in> set (normalize_onto acc ss). plain x" .
      moreover have "normalize_onto acc (s # ss) = normalize_onto acc ss"
        using up True by simp
      ultimately show ?thesis by (simp only:)
    next
      case False
      with up have "plain s" by (simp add: plain_def)
      with Cons.prems have "\<forall>x \<in> set (s # acc). plain x" by simp
      from Cons.IH [OF this] have "\<forall>x \<in> set (normalize_onto (s # acc) ss). plain x" .
      moreover have "normalize_onto acc (s # ss) = normalize_onto (s # acc) ss"
        using up False by simp
      ultimately show ?thesis by (simp only:)
    qed
  qed
qed

lemma normalize_onto_id:
  "\<forall>x \<in> set xs. plain x \<Longrightarrow> normalize_onto acc xs = rev acc @ xs"
  by (induction xs arbitrary: acc) (simp_all add: plain_def)

lemma path_join_plain: "\<forall>x \<in> set (path_join base segs). plain x"
  unfolding path_join_def by (rule normalize_onto_plain) simp

lemma path_join_snoc:
  assumes "plain s"
  shows "path_join (path_join base segs) [s] = path_join base segs @ [s]"
proof -
  have "path_join (path_join base segs) [s] = normalize_onto [] (path_join base segs) @ [s]"
    unfolding path_join_def [of "normalize_onto [] (base @ segs)"]
    using normalize_onto_snoc [OF assms] by (simp add: path_join_def)
  also have "normalize_onto [] (path_join base segs) = path_join base segs"
    using normalize_onto_id [OF path_join_plain, of "[]"] by simp
  finally show ?thesis .
qed

lemma binPath_of_eq:
  "binPath_of E plat =
     binDir_of E @ [if plat = ''win32'' then ''ai-statusline.exe'' else ''ai-statusline'']"
proof -
  have "plain (if plat = ''win32'' then BINARY_NAME @ ''.exe'' else BINARY_NAME)"
    by (simp add: plain_def BINARY_NAME_def)
  from path_join_snoc [OF this, of "dirname E" "[''..'', ''bin'']"] show ?thesis
    by (simp add: binPath_of_def binDir_of_def BINARY_NAME_def)
qed

lemma tmpFile_of_eq:
  "tmpFile_of E ext =
     normalize_onto [] (os_tmpdir E) @ [''ai-statusline-'' @ show_nat (date_now E) @ ext]"
proof -
  have "plain (''ai-statusline-'' @ show_nat (date_now E) @ ext)"
    by (simp add: plain_def)
  from normalize_onto_snoc [OF this, of "[]" "os_tmpdir E"] show ?thesis
    by (simp add: tmpFile_of_def path_join_def)
qed

lemma tmpFile_not_binPath [simp]: "tmpFile_of E ext \<noteq> binPath_of E plat"
proof
  assume "tmpFile_of E ext = binPath_of E plat"
  then have "last (tmpFile_of E ext) = last (binPath_of E plat)" by simp
  then show False by (simp add: tmpFile_of_eq binPath_of_eq split: if_splits)
qed

lemma binPath_not_tmpFile [simp]: "binPath_of E plat \<noteq> tmpFile_of E ext"
  using tmpFile_not_binPath [of E ext plat] by (rule not_sym)

section \<open>File-system calls\<close>

lemma then_io_Inl [simp]: "m w = (Inl e, w') \<Longrightarrow> then_io m f w = (Inl e, w')"
  by (simp add: then_io_def)

lemma then_io_Inr [simp]: "m w = (Inr x, w') \<Longrightarrow> then_io m f w = f x w'"
  by (simp add: then_io_def)

lemma mkdirSync_cases:
  "(io_fault E (length (trace w)) (MkdirSync p) = None \<and>
      mkdirSync E p w = (Inr (), emit (MkdirSync p) w)) \<or>
   (\<exists>msg. io_fault E (length (trace w)) (MkdirSync p) = Some msg \<and>
      mkdirSync E p w = (Inl msg, emit (MkdirSync p) w))"
  by (cases "io_fault E (length (trace w)) (MkdirSync p)") (simp_all add: mkdirSync_def)

lemma writeFileSync_cases:
  "(io_fault E (length (trace w)) (WriteFileSync p d) = None \<and>
      writeFileSync E p d w =
        (Inr (), emit (WriteFileSync p d)
           (w\<lparr>fs := (fs w)(p \<mapsto> \<lparr>content = d,
               mode = (case fs w p of None \<Rightarrow> create_mode E | Some f \<Rightarrow> mode f)\<rparr>)\<rparr>))) \<or>
   (\<exists>msg. io_fault E (length (trace w)) (WriteFileSync p d) = Some msg \<and>
      writeFileSync E p d w = (Inl msg, emit (WriteFileSync p d) w))"
  by (cases "io_fault E (length (trace w)) (WriteFileSync p d)") (simp_all add: writeFileSync_def)

lemma chmodSync_cases:
  "(\<exists>f. io_fault E (length (trace w)) (ChmodSync p m) = None \<and> fs w p = Some f \<and>
      chmodSync E p m w =
        (Inr (), emit (ChmodSync p m) (w\<lparr>fs := (fs w)(p \<mapsto> f\<lparr>mode := m\<rparr>)\<rparr>))) \<or>
   (io_fault E (length (trace w)) (ChmodSync p m) = None \<and> fs w p = None \<and>
      chmodSync E p m w = (Inl ''ENOENT: no such file or directory'', emit (ChmodSync p m) w)) \<or>
   (\<exists>msg. io_fault E (length (trace w)) (ChmodSync p m) = Some msg \<and>
      chmodSync E p m w = (Inl msg, emit (ChmodSync p m) w))"
  by (cases "io_fault E (length (trace w)) (ChmodSync p m)"; cases "fs w p")
    (simp_all add: chmodSync_def)

lemma trace_unlinkSync [simp]:
  "trace (snd (unlinkSync E p w)) = trace w @ [UnlinkSync p]"
  by (simp add: unlinkSync_def split: option.splits)

lemma fs_unlinkSync_other [simp]:
  "q \<noteq> p \<Longrightarrow> fs (snd (unlinkSync E p w)) q = fs w q"
  by (simp add: unlinkSync_def split: option.splits)

lemma fs_unlinkSync_same:
  "io_fault E (length (trace w)) (UnlinkSync p) = None \<Longrightarrow> fs (snd (unlinkSync E p w)) p = None"
  by (simp add: unlinkSync_def)

lemma put_files_keeps: "m p \<noteq> None \<Longrightarrow> put_files d xs m p \<noteq> None"
  by (induction xs arbitrary: m) auto

lemma put_files_puts: "r \<in> fst ` set xs \<Longrightarrow> put_files d xs m (d @ r) \<noteq> None"
proof (induction xs arbitrary: m)
  case Nil
  then show ?case by simp
next
  case (Cons x xs)
  obtain r' f where x: "x = (r', f)" by (cases x)
  show ?case
  proof (cases "r \<in> fst ` set xs")
    case True
    from Cons.IH [OF this] show ?thesis by (simp add: x)
  next
    case False
    with Cons.prems x have "r' = r" by simp
    then have "(m(d @ r' \<mapsto> f)) (d @ r) \<noteq> None" by simp
    from put_files_keeps [of "m(d @ r' \<mapsto> f)" "d @ r" d xs, OF this] show ?thesis
      by (simp add: x)
  qed
qed

section \<open>Extraction\<close>

text \<open>What running the tool on a file that is there does.\<close>

lemma execSync_written:
  assumes "fs w a = Some f"
  shows "execSync E cmd a d w =
           ((case tool_error (archive_tool E cmd (content f)) of Some msg \<Rightarrow> Inl msg | None \<Rightarrow> Inr ()),
            emit (ExecSync cmd)
              (w\<lparr>fs := put_files d (extracted (archive_tool E cmd (content f))) (fs w)\<rparr>))"
  using assms by (simp add: execSync_def Let_def split: option.splits)

lemma extract_with:
  assumes "io_fault E (length (trace w)) (WriteFileSync tmp buffer) = None"
  shows "cleans_up E tmp cmd buffer w
           (then_io (writeFileSync E tmp buffer)
              (\<lambda>_. finally_ignoring (execSync E cmd tmp d) (unlinkSync E tmp)) w)"
proof -
  define w1 where "w1 = emit (WriteFileSync tmp buffer)
           (w\<lparr>fs := (fs w)(tmp \<mapsto> \<lparr>content = buffer,
               mode = (case fs w tmp of None \<Rightarrow> create_mode E | Some f \<Rightarrow> mode f)\<rparr>)\<rparr>)"
  define out where "out = archive_tool E cmd buffer"
  define w2 where "w2 = emit (ExecSync cmd) (w1\<lparr>fs := put_files d (extracted out) (fs w1)\<rparr>)"
  define r where "r = (case tool_error out of Some msg \<Rightarrow> Inl msg | None \<Rightarrow> (Inr () :: string + unit))"
  have wr: "writeFileSync E tmp buffer w = (Inr (), w1)"
    using writeFileSync_cases [of E w tmp buffer] assms by (simp add: w1_def)
  have f1: "fs w1 tmp = Some \<lparr>content = buffer,
               mode = (case fs w tmp of None \<Rightarrow> create_mode E | Some f \<Rightarrow> mode f)\<rparr>"
    by (simp add: w1_def)
  have ex: "execSync E cmd tmp d w1 = (r, w2)"
    using execSync_written [OF f1, of E cmd d] by (simp add: r_def w2_def out_def)
  have res: "then_io (writeFileSync E tmp buffer)
              (\<lambda>_. finally_ignoring (execSync E cmd tmp d) (unlinkSync E tmp)) w =
             (r, snd (unlinkSync E tmp w2))"
    using wr ex by (simp add: finally_ignoring_def)
  have t2: "trace w2 = trace w @ [WriteFileSync tmp buffer, ExecSync cmd]"
    by (simp add: w2_def w1_def)
  have "io_fault E (length (trace w) + 2) (UnlinkSync tmp) = None \<Longrightarrow>
        fs (snd (unlinkSync E tmp w2)) tmp = None"
    using fs_unlinkSync_same [of E w2 tmp] t2 by simp
  then show ?thesis
    unfolding res cleans_up_def by (simp add: t2 r_def out_def)
qed

lemma extractTarGz_eq:
  "extractTarGz E buffer d =
     then_io (writeFileSync E (tmpFile_of E ''.tar.gz'') buffer)
       (\<lambda>_. finally_ignoring (execSync E (tar_command E d) (tmpFile_of E ''.tar.gz'') d)
              (unlinkSync E (tmpFile_of E ''.tar.gz'')))"
  by (simp add: extractTarGz_def tar_command_def Let_def)

lemma extractZip_eq:
  "extractZip E buffer d =
     then_io (writeFileSync E (tmpFile_of E ''.zip'') buffer)
       (\<lambda>_. finally_ignoring (execSync E (unzip_command E d) (tmpFile_of E ''.zip'') d)
              (unlinkSync E (tmpFile_of E ''.zip'')))"
  by (simp add: extractZip_def unzip_command_def Let_def)

text \<open>
  C8. In \<open>extractTarGz\<close> and in \<open>extractZip\<close>, once the temporary archive is written to the
  temp directory, the deletion of that file is attempted after the tool has run, whether the
  tool succeeded or failed; the call returns or throws as the tool did, whatever the deletion
  did; and when the deletion did not fail the file is gone.
\<close>

theorem temp_archive_cleanup:
  "(io_fault E (length (trace w)) (WriteFileSync (tmpFile_of E ''.tar.gz'') buffer) = None \<longrightarrow>
      cleans_up E (tmpFile_of E ''.tar.gz'') (tar_command E destDir) buffer w
        (extractTarGz E buffer destDir w)) \<and>
   (io_fault E (length (trace w)) (WriteFileSync (tmpFile_of E ''.zip'') buffer) = None \<longrightarrow>
      cleans_up E (tmpFile_of E ''.zip'') (unzip_command E destDir) buffer w
        (extractZip E buffer destDir w))"
proof (intro conjI impI)
  assume "io_fault E (length (trace w)) (WriteFileSync (tmpFile_of E ''.tar.gz'') buffer) = None"
  from extract_with [OF this, of "tar_command E destDir" destDir]
  show "cleans_up E (tmpFile_of E ''.tar.gz'') (tar_command E destDir) buffer w
        (extractTarGz E buffer destDir w)"
    by (simp only: extractTarGz_eq)
next
  assume "io_fault E (length (trace w)) (WriteFileSync (tmpFile_of E ''.zip'') buffer) = None"
  from extract_with [OF this, of "unzip_command E destDir" destDir]
  show "cleans_up E (tmpFile_of E ''.zip'') (unzip_command E destDir) buffer w
        (extractZip E buffer destDir w)"
    by (simp only: extractZip_eq)
qed


theorem temp_archive_cleanup_witness:
  "trace (snd (extractTarGz broken_archive_host ''ARCHIVE'' [''pkg'', ''bin''] empty_world)) =
     [WriteFileSync [''tmp'', ''ai-statusline-1700000000000.tar.gz''] ''ARCHIVE'',
      ExecSync (tar_command broken_archive_host [''pkg'', ''bin'']),
      UnlinkSync [''tmp'', ''ai-statusline-1700000000000.tar.gz'']] \<and>
   fst (extractTarGz broken_archive_host ''ARCHIVE'' [''pkg'', ''bin''] empty_world) =
     Inl (''Command failed: '' @ tar_command broken_archive_host [''pkg'', ''bin'']) \<and>
   fs (snd (extractZip linux_host ''ARCHIVE'' [''pkg'', ''bin''] empty_world))
     [''tmp'', ''ai-statusline-1700000000000.zip''] = None"
  using temp_archive_cleanup [of broken_archive_host empty_world "''ARCHIVE''" "[''pkg'', ''bin'']"]
    temp_archive_cleanup [of linux_host empty_world "''ARCHIVE''" "[''pkg'', ''bin'']"]
  by (simp add: cleans_up_def broken_archive_host_def linux_host_def unlink_fault_def
      no_fault_def tool_fails_def tool_unpacks_def empty_world_def tmpFile_of_def path_join_def
      digit_def)

section \<open>The guarded steps of install\<close>

lemma extract_any_eq:
  "(if str_includes t ''windows'' then extractZip E data (binDir_of E)
    else extractTarGz E data (binDir_of E)) =
   then_io (writeFileSync E (tmpFile_of E (archive_ext t)) data)
     (\<lambda>_. finally_ignoring
        (execSync E (extract_command E t) (tmpFile_of E (archive_ext t)) (binDir_of E))
        (unlinkSync E (tmpFile_of E (archive_ext t))))"
  by (simp add: extractTarGz_eq extractZip_eq archive_ext_def extract_command_def)

lemma extract_with_result:
  assumes "io_fault E (length (trace w)) (WriteFileSync tmp buffer) = None"
  shows "\<exists>w2. then_io (writeFileSync E tmp buffer)
              (\<lambda>_. finally_ignoring (execSync E cmd tmp d) (unlinkSync E tmp)) w =
             ((case tool_error (archive_tool E cmd buffer) of Some msg \<Rightarrow> Inl msg | None \<Rightarrow> Inr ()),
              snd (unlinkSync E tmp w2)) \<and>
           trace w2 = trace w @ [WriteFileSync tmp buffer, ExecSync cmd] \<and>
           (\<forall>q. fs w q \<noteq> None \<or> q \<in> (\<lambda>r. d @ r) ` fst ` set (extracted (archive_tool E cmd buffer))
                \<longrightarrow> fs w2 q \<noteq> None)"
proof -
  define w1 where "w1 = emit (WriteFileSync tmp buffer)
           (w\<lparr>fs := (fs w)(tmp \<mapsto> \<lparr>content = buffer,
               mode = (case fs w tmp of None \<Rightarrow> create_mode E | Some f \<Rightarrow> mode f)\<rparr>)\<rparr>)"
  define out where "out = archive_tool E cmd buffer"
  define w2 where "w2 = emit (ExecSync cmd) (w1\<lparr>fs := put_files d (extracted out) (fs w1)\<rparr>)"
  have wr: "writeFileSync E tmp buffer w = (Inr (), w1)"
    using writeFileSync_cases [of E w tmp buffer] assms by (simp add: w1_def)
  have f1: "fs w1 tmp = Some \<lparr>content = buffer,
               mode = (case fs w tmp of None \<Rightarrow> create_mode E | Some f \<Rightarrow> mode f)\<rparr>"
    by (simp add: w1_def)
  have ex: "execSync E cmd tmp d w1 =
      ((case tool_error out of Some msg \<Rightarrow> Inl msg | None \<Rightarrow> Inr ()), w2)"
    using execSync_written [OF f1, of E cmd d] by (simp add: w2_def out_def)
  have res: "then_io (writeFileSync E tmp buffer)
              (\<lambda>_. finally_ignoring (execSync E cmd tmp d) (unlinkSync E tmp)) w =
             ((case tool_error out of Some msg \<Rightarrow> Inl msg | None \<Rightarrow> Inr ()),
              snd (unlinkSync E tmp w2))"
    using wr ex by (simp add: finally_ignoring_def)
  have t2: "trace w2 = trace w @ [WriteFileSync tmp buffer, ExecSync cmd]"
    by (simp add: w2_def w1_def)
  have keep: "fs w2 q \<noteq> None" if "fs w q \<noteq> None" for q
  proof -
    from that have "fs w1 q \<noteq> None" by (simp add: w1_def)
    from put_files_keeps [of "fs w1" q d "extracted out", OF this] show ?thesis
      by (simp add: w2_def)
  qed
  have puts: "fs w2 q \<noteq> None" if "q \<in> (\<lambda>r. d @ r) ` fst ` set (extracted out)" for q
  proof -
    from that obtain r where r: "r \<in> fst ` set (extracted out)" and q: "q = d @ r" by blast
    from put_files_puts [OF r, of d "fs w1"] show ?thesis by (simp add: w2_def q)
  qed
  from res t2 keep puts show ?thesis unfolding out_def by blast
qed

lemma install_extract_cases:
  fixes E :: env and t data :: string and w :: world
  defines "R \<equiv> install_extract E (resolved E t) data w"
    and "tmp \<equiv> tmpFile_of E (archive_ext t)"
    and "binPath \<equiv> binPath_of E (os_platform E)"
    and "out \<equiv> archive_tool E (extract_command E t) data"
  defines "D \<equiv> downloaded_line data"
    and "M \<equiv> MkdirSync (binDir_of E)"
    and "W \<equiv> WriteFileSync tmp data"
    and "X \<equiv> ExecSync (extract_command E t)"
    and "U \<equiv> UnlinkSync tmp"
    and "C \<equiv> ChmodSync binPath mode_0755"
    and "I \<equiv> installed_line E"
  shows
    "(\<exists>m n. fst R = Inl m \<and> trace (snd R) = trace w @ [D, M] \<and> io_fault E n M = Some m) \<or>
     (\<exists>m n. fst R = Inl m \<and> trace (snd R) = trace w @ [D, M, W] \<and> io_fault E n W = Some m) \<or>
     (\<exists>m. fst R = Inl m \<and> trace (snd R) = trace w @ [D, M, W, X, U] \<and> tool_error out = Some m) \<or>
     (\<exists>m. fst R = Inl m \<and> trace (snd R) = trace w @ [D, M, W, X, U, C] \<and>
          os_platform E \<noteq> ''win32'' \<and> tool_error out = None \<and>
          ((\<exists>n. io_fault E n C = Some m) \<or> binPath \<notin> (\<lambda>r. binDir_of E @ r) ` fst ` set (extracted out))) \<or>
     (fst R = Inr () \<and> trace (snd R) = trace w @ [D, M, W, X, U, C, I] \<and>
          os_platform E \<noteq> ''win32'' \<and> tool_error out = None \<and>
          (\<exists>f. fs (snd R) binPath = Some f \<and> mode f = mode_0755)) \<or>
     (fst R = Inr () \<and> trace (snd R) = trace w @ [D, M, W, X, U, I] \<and>
          os_platform E = ''win32'' \<and> tool_error out = None)"
proof -
  define w0 where "w0 = emit D w"
  define rest where "rest = then_io
      (if str_includes t ''windows'' then extractZip E data (binDir_of E)
       else extractTarGz E data (binDir_of E)) (\<lambda>_.
      then_io (if os_platform E \<noteq> ''win32'' then chmodSync E binPath mode_0755 else return_io ()) (\<lambda>_.
      (\<lambda>w'. (Inr (), emit I w'))))"
  have R: "R = then_io (mkdirSync E (binDir_of E)) (\<lambda>_. rest) w0"
    by (simp add: R_def install_extract_def Let_def resolved_def rest_def w0_def D_def
        downloaded_line_def binPath_def I_def installed_line_def)
  have t0: "trace w0 = trace w @ [D]" by (simp add: w0_def)
  from mkdirSync_cases [of E w0 "binDir_of E"] show ?thesis
  proof (elim disjE conjE exE)
    fix m assume f: "io_fault E (length (trace w0)) (MkdirSync (binDir_of E)) = Some m"
      and r: "mkdirSync E (binDir_of E) w0 = (Inl m, emit (MkdirSync (binDir_of E)) w0)"
    from r have "R = (Inl m, emit M w0)" by (simp add: R M_def)
    then have "fst R = Inl m \<and> trace (snd R) = trace w @ [D, M] \<and>
       io_fault E (length (trace w0)) M = Some m"
      using f by (simp add: t0 M_def)
    then show ?thesis by blast
  next
    assume "mkdirSync E (binDir_of E) w0 = (Inr (), emit (MkdirSync (binDir_of E)) w0)"
    define w1 where "w1 = emit M w0"
    have R1: "R = rest w1"
      using \<open>mkdirSync E (binDir_of E) w0 = (Inr (), emit (MkdirSync (binDir_of E)) w0)\<close>
      by (simp add: R w1_def M_def)
    have t1: "trace w1 = trace w @ [D, M]" by (simp add: w1_def t0)
    have rest_eq: "rest = then_io
      (then_io (writeFileSync E tmp data)
         (\<lambda>_. finally_ignoring (execSync E (extract_command E t) tmp (binDir_of E))
                (unlinkSync E tmp))) (\<lambda>_.
      then_io (if os_platform E \<noteq> ''win32'' then chmodSync E binPath mode_0755 else return_io ()) (\<lambda>_.
      (\<lambda>w'. (Inr (), emit I w'))))"
      unfolding rest_def extract_any_eq tmp_def ..
    from writeFileSync_cases [of E w1 tmp data] show ?thesis
    proof (elim disjE conjE exE)
      fix m assume f: "io_fault E (length (trace w1)) (WriteFileSync tmp data) = Some m"
        and r: "writeFileSync E tmp data w1 = (Inl m, emit (WriteFileSync tmp data) w1)"
      from r have "R = (Inl m, emit W w1)" by (simp add: R1 rest_eq W_def)
      then have "fst R = Inl m \<and> trace (snd R) = trace w @ [D, M, W] \<and>
         io_fault E (length (trace w1)) W = Some m"
        using f by (simp add: t1 W_def)
      then show ?thesis by blast
    next
      assume f: "io_fault E (length (trace w1)) (WriteFileSync tmp data) = None"
      from extract_with_result [OF f, of "extract_command E t" "binDir_of E"]
      obtain w2 where
        x: "then_io (writeFileSync E tmp data)
              (\<lambda>_. finally_ignoring (execSync E (extract_command E t) tmp (binDir_of E))
                     (unlinkSync E tmp)) w1 =
            ((case tool_error out of Some msg \<Rightarrow> Inl msg | None \<Rightarrow> Inr ()),
             snd (unlinkSync E tmp w2))"
        and t2: "trace w2 = trace w1 @ [WriteFileSync tmp data, ExecSync (extract_command E t)]"
        and f2: "\<forall>q. fs w1 q \<noteq> None \<or> q \<in> (\<lambda>r. binDir_of E @ r) ` fst ` set (extracted out)
                   \<longrightarrow> fs w2 q \<noteq> None"
        unfolding out_def by blast
      define w3 where "w3 = snd (unlinkSync E tmp w2)"
      have t3: "trace w3 = trace w @ [D, M, W, X, U]"
        by (simp add: w3_def t2 t1 W_def X_def U_def)
      have ne: "binPath \<noteq> tmp" by (simp add: binPath_def tmp_def)
      have f3: "fs w3 binPath = fs w2 binPath"
        unfolding w3_def using ne by simp
      show ?thesis
      proof (cases "tool_error out")
        case (Some m)
        with x have "R = (Inl m, w3)" by (simp add: R1 rest_eq w3_def)
        then have "fst R = Inl m \<and> trace (snd R) = trace w @ [D, M, W, X, U] \<and>
           tool_error out = Some m"
          using Some t3 by simp
        then show ?thesis by blast
      next
        case None
        with x have R3: "R =
           then_io (if os_platform E \<noteq> ''win32'' then chmodSync E binPath mode_0755 else return_io ())
             (\<lambda>_. (\<lambda>w'. (Inr (), emit I w'))) w3"
          by (simp add: R1 rest_eq w3_def)
        show ?thesis
        proof (cases "os_platform E = ''win32''")
          case True
          with R3 have "R = (Inr (), emit I w3)" by (simp add: return_io_def then_io_def)
          then have "fst R = Inr () \<and> trace (snd R) = trace w @ [D, M, W, X, U, I] \<and>
            os_platform E = ''win32'' \<and> tool_error out = None"
            using True None t3 by simp
          then show ?thesis by blast
        next
          case False
          with R3 have R4: "R = then_io (chmodSync E binPath mode_0755)
             (\<lambda>_. (\<lambda>w'. (Inr (), emit I w'))) w3" by simp
          from chmodSync_cases [of E w3 binPath mode_0755] show ?thesis
          proof (elim disjE conjE exE)
            fix f assume "fs w3 binPath = Some f"
              and r: "chmodSync E binPath mode_0755 w3 =
                 (Inr (), emit (ChmodSync binPath mode_0755)
                    (w3\<lparr>fs := (fs w3)(binPath \<mapsto> f\<lparr>mode := mode_0755\<rparr>)\<rparr>))"
            from r have "R = (Inr (), emit I (emit C
                    (w3\<lparr>fs := (fs w3)(binPath \<mapsto> f\<lparr>mode := mode_0755\<rparr>)\<rparr>)))"
              by (simp add: R4 C_def)
            then have "fst R = Inr () \<and> trace (snd R) = trace w @ [D, M, W, X, U, C, I] \<and>
              os_platform E \<noteq> ''win32'' \<and> tool_error out = None \<and>
              (\<exists>f. fs (snd R) binPath = Some f \<and> mode f = mode_0755)"
              using False None t3 by simp
            then show ?thesis by blast
          next
            assume n: "fs w3 binPath = None"
              and r: "chmodSync E binPath mode_0755 w3 =
                 (Inl ''ENOENT: no such file or directory'', emit (ChmodSync binPath mode_0755) w3)"
            from n f3 have "fs w2 binPath = None" by simp
            then have "binPath \<notin> (\<lambda>r. binDir_of E @ r) ` fst ` set (extracted out)"
              using f2 [rule_format, of binPath] by blast
            moreover from r have "R = (Inl ''ENOENT: no such file or directory'', emit C w3)"
              by (simp add: R4 C_def)
            ultimately have "fst R = Inl ''ENOENT: no such file or directory'' \<and>
              trace (snd R) = trace w @ [D, M, W, X, U, C] \<and>
              os_platform E \<noteq> ''win32'' \<and> tool_error out = None \<and>
              ((\<exists>n. io_fault E n C = Some ''ENOENT: no such file or directory'') \<or>
               binPath \<notin> (\<lambda>r. binDir_of E @ r) ` fst ` set (extracted out))"
              using False None t3 by simp
            then show ?thesis by blast
          next
            fix m assume fl: "io_fault E (length (trace w3)) (ChmodSync binPath mode_0755) = Some m"
              and r: "chmodSync E binPath mode_0755 w3 =
                 (Inl m, emit (ChmodSync binPath mode_0755) w3)"
            from r have "R = (Inl m, emit C w3)" by (simp add: R4 C_def)
            then have "fst R = Inl m \<and> trace (snd R) = trace w @ [D, M, W, X, U, C] \<and>
              os_platform E \<noteq> ''win32'' \<and> tool_error out = None \<and>
              ((\<exists>n. io_fault E n C = Some m) \<or>
               binPath \<notin> (\<lambda>r. binDir_of E @ r) ` fst ` set (extracted out))"
              using False None t3 fl C_def by auto
            then show ?thesis by blast
          qed
        qed
      qed
    qed
  qed
qed

section \<open>The fallback of install\<close>

lemma install_catch_cases:
  fixes E :: env and t msg :: string and w :: world
  defines "R \<equiv> install_catch E (resolved E t) msg w"
    and "binPath \<equiv> binPath_of E (os_platform E)"
  defines "M \<equiv> MkdirSync (binDir_of E)"
    and "S \<equiv> WriteFileSync binPath (stub_for (os_platform E))"
    and "C \<equiv> ChmodSync binPath mode_0755"
  shows
    "(\<exists>m n. fst R = Inl m \<and> trace (snd R) = trace w @ warning_lines msg @ [M] \<and>
          io_fault E n M = Some m) \<or>
     (\<exists>m n. fst R = Inl m \<and> trace (snd R) = trace w @ warning_lines msg @ [M, S] \<and>
          io_fault E n S = Some m) \<or>
     (\<exists>m n. fst R = Inl m \<and> trace (snd R) = trace w @ warning_lines msg @ [M, S, C] \<and>
          os_platform E \<noteq> ''win32'' \<and> io_fault E n C = Some m) \<or>
     (fst R = Inr () \<and> trace (snd R) = trace w @ warning_lines msg @ [M, S, C] \<and>
          os_platform E \<noteq> ''win32'' \<and>
          (\<exists>f. fs (snd R) binPath = Some f \<and> content f = stub_for (os_platform E) \<and>
               mode f = mode_0755)) \<or>
     (fst R = Inr () \<and> trace (snd R) = trace w @ warning_lines msg @ [M, S] \<and>
          os_platform E = ''win32'' \<and>
          (\<exists>f. fs (snd R) binPath = Some f \<and> content f = stub_for (os_platform E)))"
proof -
  define w0 where "w0 =
        emit (ConsoleWarn (''  https://github.com/'' @ REPO @ ''/releases''))
        (emit (ConsoleWarn ''\<newline>Or download manually from:'')
        (emit (ConsoleWarn ''  cargo install --path .'')
        (emit (ConsoleWarn ''\<newline>You can build from source instead:'')
        (emit (ConsoleWarn (''\<newline>Failed to download pre-built binary: '' @ msg)) w))))"
  define rest where "rest =
      then_io (writeFileSync E binPath (stub_for (os_platform E))) (\<lambda>_.
      (if os_platform E \<noteq> ''win32'' then chmodSync E binPath mode_0755 else return_io ()))"
  have R: "R = then_io (mkdirSync E (binDir_of E)) (\<lambda>_. rest) w0"
    by (simp add: R_def install_catch_def Let_def resolved_def rest_def w0_def binPath_def)
  have t0: "trace w0 = trace w @ warning_lines msg"
    by (simp add: w0_def warning_lines_def REPO_def)
  from mkdirSync_cases [of E w0 "binDir_of E"] show ?thesis
  proof (elim disjE conjE exE)
    fix m assume f: "io_fault E (length (trace w0)) (MkdirSync (binDir_of E)) = Some m"
      and r: "mkdirSync E (binDir_of E) w0 = (Inl m, emit (MkdirSync (binDir_of E)) w0)"
    from r have "R = (Inl m, emit M w0)" by (simp add: R M_def)
    then have "fst R = Inl m \<and> trace (snd R) = trace w @ warning_lines msg @ [M] \<and>
       io_fault E (length (trace w0)) M = Some m"
      using f by (simp add: t0 M_def)
    then show ?thesis by blast
  next
    assume r: "mkdirSync E (binDir_of E) w0 = (Inr (), emit (MkdirSync (binDir_of E)) w0)"
    define w1 where "w1 = emit M w0"
    have R1: "R = rest w1" using r by (simp add: R w1_def M_def)
    have t1: "trace w1 = trace w @ warning_lines msg @ [M]" by (simp add: w1_def t0)
    from writeFileSync_cases [of E w1 binPath "stub_for (os_platform E)"] show ?thesis
    proof (elim disjE conjE exE)
      fix m assume f: "io_fault E (length (trace w1)) (WriteFileSync binPath (stub_for (os_platform E))) = Some m"
        and r: "writeFileSync E binPath (stub_for (os_platform E)) w1 =
                  (Inl m, emit (WriteFileSync binPath (stub_for (os_platform E))) w1)"
      from r have "R = (Inl m, emit S w1)" by (simp add: R1 rest_def S_def)
      then have "fst R = Inl m \<and> trace (snd R) = trace w @ warning_lines msg @ [M, S] \<and>
         io_fault E (length (trace w1)) S = Some m"
        using f by (simp add: t1 S_def)
      then show ?thesis by blast
    next
      define stubfile where "stubfile = \<lparr>content = stub_for (os_platform E),
          mode = (case fs w1 binPath of None \<Rightarrow> create_mode E | Some f \<Rightarrow> mode f)\<rparr>"
      define w2 where "w2 = emit S (w1\<lparr>fs := (fs w1)(binPath \<mapsto> stubfile)\<rparr>)"
      assume "writeFileSync E binPath (stub_for (os_platform E)) w1 =
        (Inr (), emit (WriteFileSync binPath (stub_for (os_platform E)))
           (w1\<lparr>fs := (fs w1)(binPath \<mapsto> \<lparr>content = stub_for (os_platform E),
               mode = (case fs w1 binPath of None \<Rightarrow> create_mode E | Some f \<Rightarrow> mode f)\<rparr>)\<rparr>))"
      then have wr: "writeFileSync E binPath (stub_for (os_platform E)) w1 = (Inr (), w2)"
        by (simp add: w2_def S_def stubfile_def)
      have R2: "R = (if os_platform E \<noteq> ''win32'' then chmodSync E binPath mode_0755
                     else return_io ()) w2"
        using wr by (simp add: R1 rest_def)
      have t2: "trace w2 = trace w @ warning_lines msg @ [M, S]" by (simp add: w2_def t1)
      have f2: "fs w2 binPath = Some stubfile" by (simp add: w2_def)
      have c2: "content stubfile = stub_for (os_platform E)" by (simp add: stubfile_def)
      show ?thesis
      proof (cases "os_platform E = ''win32''")
        case True
        with R2 have "R = (Inr (), w2)" by (simp add: return_io_def)
        then have "fst R = Inr () \<and> trace (snd R) = trace w @ warning_lines msg @ [M, S] \<and>
          os_platform E = ''win32'' \<and>
          (\<exists>f. fs (snd R) binPath = Some f \<and> content f = stub_for (os_platform E))"
          using True t2 f2 c2 by simp
        then show ?thesis by blast
      next
        case False
        with R2 have R3: "R = chmodSync E binPath mode_0755 w2" by simp
        from chmodSync_cases [of E w2 binPath mode_0755] show ?thesis
        proof (elim disjE conjE exE)
          fix f assume s: "fs w2 binPath = Some f"
            and r: "chmodSync E binPath mode_0755 w2 =
               (Inr (), emit (ChmodSync binPath mode_0755)
                  (w2\<lparr>fs := (fs w2)(binPath \<mapsto> f\<lparr>mode := mode_0755\<rparr>)\<rparr>))"
          from s f2 have "f = stubfile" by simp
          with r have "fst R = Inr () \<and> trace (snd R) = trace w @ warning_lines msg @ [M, S, C] \<and>
            os_platform E \<noteq> ''win32'' \<and>
            (\<exists>f. fs (snd R) binPath = Some f \<and> content f = stub_for (os_platform E) \<and>
               mode f = mode_0755)"
            using False t2 c2 by (simp add: R3 C_def)
          then show ?thesis by blast
        next
          assume "fs w2 binPath = None"
          with f2 show ?thesis by simp
        next
          fix m assume fl: "io_fault E (length (trace w2)) (ChmodSync binPath mode_0755) = Some m"
            and r: "chmodSync E binPath mode_0755 w2 =
               (Inl m, emit (ChmodSync binPath mode_0755) w2)"
          from r have "fst R = Inl m \<and> trace (snd R) = trace w @ warning_lines msg @ [M, S, C] \<and>
            os_platform E \<noteq> ''win32'' \<and> io_fault E (length (trace w2)) C = Some m"
            using False t2 fl by (simp add: R3 C_def)
          then show ?thesis by blast
        qed
      qed
    qed
  qed
qed

section \<open>install, step by step\<close>

lemma supported_obtain:
  "supported E \<Longrightarrow> \<exists>t. map_of targets (platform_key (os_platform E) (os_arch E)) = Some t"
  by (simp add: supported_def)

lemma install_unfold:
  assumes "map_of targets (platform_key (os_platform E) (os_arch E)) = Some t"
  shows "install E w =
     (if existsSync w (binPath_of E (os_platform E)) then
        Some (Returned (), emit (already_line E) w)
      else
        (case install_try E (resolved E t) (getDownloadUrl E t) (announce E t w) of
           None \<Rightarrow> None
         | Some (Returned u, w2) \<Rightarrow> Some (Returned (), w2)
         | Some (Threw msg, w2) \<Rightarrow> Some (to_completion (install_catch E (resolved E t) msg w2))
         | Some (Exited n, w2) \<Rightarrow> Some (Exited n, w2)
         | Some (Uncaught msg, w2) \<Rightarrow> Some (Uncaught msg, w2)))"
  unfolding resolved_def already_line_def announce_def
  by (simp add: install_def getPlatformTarget_Some [OF assms] Let_def)

lemma install_unsupported:
  assumes "\<not> supported E"
  shows "\<exists>w'. install E w = Some (Exited 1, w') \<and> fs w' = fs w"
  using assms getPlatformTarget_None [of E w]
  by (simp add: install_def supported_def)

lemma trace_announce:
  "trace (announce E t w) = trace w @
     [ConsoleLog (''Downloading ai-statusline v'' @ VERSION E @ '' for '' @ t @ ''...''),
      ConsoleLog (''  URL: '' @ getDownloadUrl E t)]"
  by (simp add: announce_def)

lemma fs_announce [simp]: "fs (announce E t w) = fs w"
  by (simp add: announce_def)


section \<open>What a run of install leaves behind\<close>

lemma NetGet_only:
  assumes "list_all is_NetGet evs"
  shows "\<not> list_ex (writes_to p) evs" "installed_line E \<notin> set evs"
proof -
  have "\<And>e. is_NetGet e \<Longrightarrow> \<not> writes_to p e \<and> e \<noteq> installed_line E"
    by (case_tac e) (simp_all add: installed_line_def)
  with assms show "\<not> list_ex (writes_to p) evs" "installed_line E \<notin> set evs"
    by (auto simp: list_all_iff list_ex_iff)
qed

lemma try_summary:
  fixes E :: env and t data :: string and w :: world
  defines "R \<equiv> install_extract E (resolved E t) data w"
    and "binPath \<equiv> binPath_of E (os_platform E)"
  shows "\<exists>evs. trace (snd R) = trace w @ evs \<and> \<not> list_ex (writes_to binPath) evs \<and>
           (installed_line E \<in> set evs \<longleftrightarrow> fst R = Inr ()) \<and>
           (fst R = Inr () \<and> os_platform E \<noteq> ''win32'' \<longrightarrow>
              (\<exists>f. fs (snd R) binPath = Some f \<and> mode f = mode_0755))"
proof -
  have D: "downloaded_line data \<noteq> installed_line E"
    by (simp add: downloaded_line_def installed_line_def)
  have I: "\<And>p. MkdirSync p \<noteq> installed_line E" "\<And>p d. WriteFileSync p d \<noteq> installed_line E"
    "\<And>c. ExecSync c \<noteq> installed_line E" "\<And>p. UnlinkSync p \<noteq> installed_line E"
    "\<And>p m. ChmodSync p m \<noteq> installed_line E"
    by (simp_all add: installed_line_def)
  have W: "\<not> writes_to binPath (downloaded_line data)" "\<not> writes_to binPath (installed_line E)"
    "\<And>ext d. \<not> writes_to binPath (WriteFileSync (tmpFile_of E ext) d)"
    by (simp_all add: downloaded_line_def installed_line_def binPath_def)
  note facts = D D [symmetric] I I [symmetric] W
  from install_extract_cases [of E t data w] show ?thesis
    unfolding R_def [symmetric] binPath_def [symmetric]
  proof (elim disjE conjE exE)
    fix m n assume "fst R = Inl m"
      "trace (snd R) = trace w @ [downloaded_line data, MkdirSync (binDir_of E)]"
    then show ?thesis using facts by (intro exI [of _ "[downloaded_line data, MkdirSync (binDir_of E)]"]) simp
  next
    fix m n assume "fst R = Inl m"
      "trace (snd R) = trace w @ [downloaded_line data, MkdirSync (binDir_of E),
          WriteFileSync (tmpFile_of E (archive_ext t)) data]"
    then show ?thesis using facts
      by (intro exI [of _ "[downloaded_line data, MkdirSync (binDir_of E),
          WriteFileSync (tmpFile_of E (archive_ext t)) data]"]) simp
  next
    fix m assume "fst R = Inl m"
      "trace (snd R) = trace w @ [downloaded_line data, MkdirSync (binDir_of E),
          WriteFileSync (tmpFile_of E (archive_ext t)) data, ExecSync (extract_command E t),
          UnlinkSync (tmpFile_of E (archive_ext t))]"
    then show ?thesis using facts
      by (intro exI [of _ "[downloaded_line data, MkdirSync (binDir_of E),
          WriteFileSync (tmpFile_of E (archive_ext t)) data, ExecSync (extract_command E t),
          UnlinkSync (tmpFile_of E (archive_ext t))]"]) simp
  next
    fix m assume "fst R = Inl m"
      "trace (snd R) = trace w @ [downloaded_line data, MkdirSync (binDir_of E),
          WriteFileSync (tmpFile_of E (archive_ext t)) data, ExecSync (extract_command E t),
          UnlinkSync (tmpFile_of E (archive_ext t)), ChmodSync binPath mode_0755]"
    then show ?thesis using facts
      by (intro exI [of _ "[downloaded_line data, MkdirSync (binDir_of E),
          WriteFileSync (tmpFile_of E (archive_ext t)) data, ExecSync (extract_command E t),
          UnlinkSync (tmpFile_of E (archive_ext t)), ChmodSync binPath mode_0755]"]) simp
  next
    fix m assume "fst R = Inl m"
      "trace (snd R) = trace w @ [downloaded_line data, MkdirSync (binDir_of E),
          WriteFileSync (tmpFile_of E (archive_ext t)) data, ExecSync (extract_command E t),
          UnlinkSync (tmpFile_of E (archive_ext t)), ChmodSync binPath mode_0755]"
    then show ?thesis using facts
      by (intro exI [of _ "[downloaded_line data, MkdirSync (binDir_of E),
          WriteFileSync (tmpFile_of E (archive_ext t)) data, ExecSync (extract_command E t),
          UnlinkSync (tmpFile_of E (archive_ext t)), ChmodSync binPath mode_0755]"]) simp
  next
    fix f assume "fst R = Inr ()"
      "trace (snd R) = trace w @ [downloaded_line data, MkdirSync (binDir_of E),
          WriteFileSync (tmpFile_of E (archive_ext t)) data, ExecSync (extract_command E t),
          UnlinkSync (tmpFile_of E (archive_ext t)), ChmodSync binPath mode_0755,
          installed_line E]"
      "fs (snd R) binPath = Some f" "mode f = mode_0755"
    then show ?thesis using facts
      by (intro exI [of _ "[downloaded_line data, MkdirSync (binDir_of E),
          WriteFileSync (tmpFile_of E (archive_ext t)) data, ExecSync (extract_command E t),
          UnlinkSync (tmpFile_of E (archive_ext t)), ChmodSync binPath mode_0755,
          installed_line E]"]) simp
  next
    assume "fst R = Inr ()"
      "trace (snd R) = trace w @ [downloaded_line data, MkdirSync (binDir_of E),
          WriteFileSync (tmpFile_of E (archive_ext t)) data, ExecSync (extract_command E t),
          UnlinkSync (tmpFile_of E (archive_ext t)), installed_line E]"
      "os_platform E = ''win32''"
    then show ?thesis using facts
      by (intro exI [of _ "[downloaded_line data, MkdirSync (binDir_of E),
          WriteFileSync (tmpFile_of E (archive_ext t)) data, ExecSync (extract_command E t),
          UnlinkSync (tmpFile_of E (archive_ext t)), installed_line E]"]) simp
  qed
qed

lemma catch_summary:
  fixes E :: env and t msg :: string and w :: world
  defines "R \<equiv> install_catch E (resolved E t) msg w"
    and "binPath \<equiv> binPath_of E (os_platform E)"
  shows "\<exists>evs. trace (snd R) = trace w @ evs \<and> installed_line E \<notin> set evs \<and>
           ((fst R = Inr () \<and> list_ex (writes_to binPath) evs \<and>
             (\<exists>f. fs (snd R) binPath = Some f \<and> content f = stub_for (os_platform E) \<and>
                  (os_platform E \<noteq> ''win32'' \<longrightarrow> mode f = mode_0755))) \<or>
            (\<exists>m n e. fst R = Inl m \<and>
                e \<in> {MkdirSync (binDir_of E), WriteFileSync binPath (stub_for (os_platform E)),
                     ChmodSync binPath mode_0755} \<and>
                io_fault E n e = Some m))"
proof -
  have I: "installed_line E \<notin> set (warning_lines msg)"
    "\<And>p. MkdirSync p \<noteq> installed_line E" "\<And>p d. WriteFileSync p d \<noteq> installed_line E"
    "\<And>p m. ChmodSync p m \<noteq> installed_line E"
    by (simp_all add: installed_line_def warning_lines_def)
  note facts = I I(2-4) [symmetric]
  from install_catch_cases [of E t msg w] show ?thesis
    unfolding R_def [symmetric] binPath_def [symmetric]
  proof (elim disjE conjE exE)
    fix m n assume "fst R = Inl m"
      "trace (snd R) = trace w @ warning_lines msg @ [MkdirSync (binDir_of E)]"
      "io_fault E n (MkdirSync (binDir_of E)) = Some m"
    then show ?thesis using facts
      by (intro exI [of _ "warning_lines msg @ [MkdirSync (binDir_of E)]"]) auto
  next
    fix m n assume "fst R = Inl m"
      "trace (snd R) = trace w @ warning_lines msg @
         [MkdirSync (binDir_of E), WriteFileSync binPath (stub_for (os_platform E))]"
      "io_fault E n (WriteFileSync binPath (stub_for (os_platform E))) = Some m"
    then show ?thesis using facts
      by (intro exI [of _ "warning_lines msg @
         [MkdirSync (binDir_of E), WriteFileSync binPath (stub_for (os_platform E))]"]) auto
  next
    fix m n assume "fst R = Inl m"
      "trace (snd R) = trace w @ warning_lines msg @
         [MkdirSync (binDir_of E), WriteFileSync binPath (stub_for (os_platform E)),
          ChmodSync binPath mode_0755]"
      "io_fault E n (ChmodSync binPath mode_0755) = Some m"
    then show ?thesis using facts
      by (intro exI [of _ "warning_lines msg @
         [MkdirSync (binDir_of E), WriteFileSync binPath (stub_for (os_platform E)),
          ChmodSync binPath mode_0755]"]) auto
  next
    fix f assume "fst R = Inr ()"
      "trace (snd R) = trace w @ warning_lines msg @
         [MkdirSync (binDir_of E), WriteFileSync binPath (stub_for (os_platform E)),
          ChmodSync binPath mode_0755]"
      "fs (snd R) binPath = Some f" "content f = stub_for (os_platform E)" "mode f = mode_0755"
    then show ?thesis using facts
      by (intro exI [of _ "warning_lines msg @
         [MkdirSync (binDir_of E), WriteFileSync binPath (stub_for (os_platform E)),
          ChmodSync binPath mode_0755]"]) simp
  next
    fix f assume "fst R = Inr ()"
      "trace (snd R) = trace w @ warning_lines msg @
         [MkdirSync (binDir_of E), WriteFileSync binPath (stub_for (os_platform E))]"
      "os_platform E = ''win32''"
      "fs (snd R) binPath = Some f" "content f = stub_for (os_platform E)"
    then show ?thesis using facts
      by (intro exI [of _ "warning_lines msg @
         [MkdirSync (binDir_of E), WriteFileSync binPath (stub_for (os_platform E))]"]) simp
  qed
qed

lemma install_try_cases:
  assumes "install_try E pt url w = Some (r, w2)"
  shows "(\<exists>m. r = Threw m \<and> download E url w = Some (Threw m, w2)) \<or>
         (\<exists>m. r = Uncaught m \<and> download E url w = Some (Uncaught m, w2)) \<or>
         (\<exists>data wd. download E url w = Some (Returned data, wd) \<and>
                     to_completion (install_extract E pt data wd) = (r, w2))"
proof -
  from assms obtain d wd where d: "download E url w = Some (d, wd)"
    by (auto simp: install_try_def split: option.splits)
  from download_effects(3) [OF d] have "\<forall>n. d \<noteq> Exited n" .
  with assms d show ?thesis
    by (cases d) (auto simp: install_try_def)
qed

lemma announce_lines:
  "\<exists>a1 a2. trace (announce E t w) = trace w @ [ConsoleLog a1, ConsoleLog a2] \<and>
     ConsoleLog a1 \<noteq> installed_line E \<and> ConsoleLog a2 \<noteq> installed_line E"
  by (simp add: trace_announce installed_line_def)

text \<open>
  On a supported platform with nothing at the destination, a run of install that comes to an
  end went one of four ways.
\<close>

lemma install_outcomes:
  fixes E :: env and w w' :: world
  defines "binPath \<equiv> binPath_of E (os_platform E)"
  assumes sup: "supported E" and absent: "\<not> existsSync w binPath"
    and ret: "install E w = Some (c, w')"
  shows "\<exists>evs. trace w' = trace w @ evs \<and>
     ((c = Returned () \<and> installed_line E \<in> set evs \<and> \<not> list_ex (writes_to binPath) evs \<and>
       (os_platform E \<noteq> ''win32'' \<longrightarrow> (\<exists>f. fs w' binPath = Some f \<and> mode f = mode_0755))) \<or>
      (c = Returned () \<and> installed_line E \<notin> set evs \<and> list_ex (writes_to binPath) evs \<and>
       (\<exists>f. fs w' binPath = Some f \<and> content f = stub_for (os_platform E) \<and>
            (os_platform E \<noteq> ''win32'' \<longrightarrow> mode f = mode_0755))) \<or>
      (\<exists>m n e. c = Threw m \<and> installed_line E \<notin> set evs \<and>
          e \<in> {MkdirSync (binDir_of E), WriteFileSync binPath (stub_for (os_platform E)),
               ChmodSync binPath mode_0755} \<and>
          io_fault E n e = Some m) \<or>
      (\<exists>m t. c = Uncaught m \<and> installed_line E \<notin> set evs \<and>
          \<not> list_ex (writes_to binPath) evs \<and> fs w' = fs w \<and>
          map_of targets (platform_key (os_platform E) (os_arch E)) = Some t \<and>
          download E (getDownloadUrl E t) (announce E t w) = Some (Uncaught m, w')))"
proof -
  from sup obtain t where t: "map_of targets (platform_key (os_platform E) (os_arch E)) = Some t"
    using supported_obtain by blast
  obtain a1 a2 where a: "trace (announce E t w) = trace w @ [ConsoleLog a1, ConsoleLog a2]"
    and a1: "ConsoleLog a1 \<noteq> installed_line E" and a2: "ConsoleLog a2 \<noteq> installed_line E"
    using announce_lines by blast
  from ret absent obtain r w2 where
    tried: "install_try E (resolved E t) (getDownloadUrl E t) (announce E t w) = Some (r, w2)"
    and fin: "(c, w') = (case r of Returned u \<Rightarrow> (Returned (), w2)
                 | Threw msg \<Rightarrow> to_completion (install_catch E (resolved E t) msg w2)
                 | Exited n \<Rightarrow> (Exited n, w2)
                 | Uncaught msg \<Rightarrow> (Uncaught msg, w2))"
    unfolding install_unfold [OF t] binPath_def
    by (auto split: option.splits completion.splits)
  have guarded: "\<exists>evs. trace w2 = trace w @ evs \<and> \<not> list_ex (writes_to binPath) evs \<and>
      (installed_line E \<in> set evs \<longleftrightarrow> r = Returned ()) \<and>
      (r = Returned () \<and> os_platform E \<noteq> ''win32'' \<longrightarrow>
         (\<exists>f. fs w2 binPath = Some f \<and> mode f = mode_0755)) \<and>
      (\<forall>n. r \<noteq> Exited n) \<and>
      (\<forall>m. r = Uncaught m \<longrightarrow> fs w2 = fs w \<and>
         download E (getDownloadUrl E t) (announce E t w) = Some (Uncaught m, w2))"
  proof -
    have settled: ?thesis
      if d: "download E (getDownloadUrl E t) (announce E t w) = Some (d, w2)"
        and r: "r \<noteq> Returned ()" "\<forall>n. r \<noteq> Exited n"
        and u: "\<forall>m. r = Uncaught m \<longrightarrow> d = Uncaught m" for d
    proof -
      from download_effects(2) [OF d] obtain nets where
        n: "trace w2 = trace (announce E t w) @ nets" "list_all is_NetGet nets" by blast
      from n a have "trace w2 = trace w @ ([ConsoleLog a1, ConsoleLog a2] @ nets)" by simp
      moreover have "\<not> list_ex (writes_to binPath) ([ConsoleLog a1, ConsoleLog a2] @ nets)"
        using NetGet_only(1) [OF n(2)] by simp
      moreover have "installed_line E \<notin> set ([ConsoleLog a1, ConsoleLog a2] @ nets)"
        using NetGet_only(2) [OF n(2)] a1 a2 by auto
      moreover have "fs w2 = fs w" using download_effects(1) [OF d] by simp
      ultimately show ?thesis using r d u by blast
    qed
    from install_try_cases [OF tried] show ?thesis
    proof (elim disjE exE conjE)
      fix m assume "r = Threw m"
        "download E (getDownloadUrl E t) (announce E t w) = Some (Threw m, w2)"
      then show ?thesis using settled by simp
    next
      fix m assume "r = Uncaught m"
        "download E (getDownloadUrl E t) (announce E t w) = Some (Uncaught m, w2)"
      then show ?thesis using settled by simp
    next
      fix data wd assume d: "download E (getDownloadUrl E t) (announce E t w) = Some (Returned data, wd)"
        and x: "to_completion (install_extract E (resolved E t) data wd) = (r, w2)"
      define R where "R = install_extract E (resolved E t) data wd"
      from x have w2: "w2 = snd R" and rr: "r = (case fst R of Inl m \<Rightarrow> Threw m | Inr u \<Rightarrow> Returned u)"
        by (simp_all add: R_def to_completion_def split: prod.splits sum.splits)
      have rI: "r = Returned () \<longleftrightarrow> fst R = Inr ()" "\<forall>n. r \<noteq> Exited n" "\<forall>m. r \<noteq> Uncaught m"
        unfolding rr by (cases "fst R"; simp)+
      from download_effects(2) [OF d] obtain nets where
        n: "trace wd = trace (announce E t w) @ nets" "list_all is_NetGet nets" by blast
      from try_summary [of E t data wd] obtain evs where
        e: "trace w2 = trace wd @ evs" "\<not> list_ex (writes_to binPath) evs"
           "installed_line E \<in> set evs \<longleftrightarrow> r = Returned ()"
           "r = Returned () \<and> os_platform E \<noteq> ''win32'' \<longrightarrow>
              (\<exists>f. fs w2 binPath = Some f \<and> mode f = mode_0755)"
        unfolding binPath_def R_def [symmetric] w2 rI(1) by auto
      from n a e(1) have "trace w2 = trace w @ ([ConsoleLog a1, ConsoleLog a2] @ nets @ evs)"
        by simp
      moreover have "\<not> list_ex (writes_to binPath) ([ConsoleLog a1, ConsoleLog a2] @ nets @ evs)"
        using NetGet_only(1) [OF n(2)] e(2) by simp
      moreover have "installed_line E \<in> set ([ConsoleLog a1, ConsoleLog a2] @ nets @ evs)
          \<longleftrightarrow> r = Returned ()"
        using NetGet_only(2) [OF n(2)] a1 a2 e(3) by auto
      ultimately show ?thesis using e(4) rI(2,3) by blast
    qed
  qed
  then obtain evs where g: "trace w2 = trace w @ evs" "\<not> list_ex (writes_to binPath) evs"
      "installed_line E \<in> set evs \<longleftrightarrow> r = Returned ()"
      "r = Returned () \<and> os_platform E \<noteq> ''win32'' \<longrightarrow>
         (\<exists>f. fs w2 binPath = Some f \<and> mode f = mode_0755)"
      "\<forall>n. r \<noteq> Exited n"
      "\<forall>m. r = Uncaught m \<longrightarrow> fs w2 = fs w \<and>
         download E (getDownloadUrl E t) (announce E t w) = Some (Uncaught m, w2)"
    by blast
  show ?thesis
  proof (cases r)
    case (Returned u)
    with fin have "c = Returned ()" "w' = w2" by simp_all
    with g Returned show ?thesis by auto
  next
    case (Exited n)
    with g(5) show ?thesis by simp
  next
    case (Uncaught m)
    with fin have "c = Uncaught m" "w' = w2" by simp_all
    with g Uncaught t show ?thesis by auto
  next
    case (Threw msg)
    define R where "R = install_catch E (resolved E t) msg w2"
    from fin Threw have c: "c = (case fst R of Inl m \<Rightarrow> Threw m | Inr x \<Rightarrow> Returned x)"
      and w': "w' = snd R"
      by (simp_all add: R_def to_completion_def split: prod.splits sum.splits)
    from g(3) Threw have noI: "installed_line E \<notin> set evs" by simp
    from catch_summary [of E t msg w2] obtain evs2 where
      k: "trace (snd R) = trace w2 @ evs2" "installed_line E \<notin> set evs2"
        "(fst R = Inr () \<and> list_ex (writes_to binPath) evs2 \<and>
             (\<exists>f. fs (snd R) binPath = Some f \<and> content f = stub_for (os_platform E) \<and>
                  (os_platform E \<noteq> ''win32'' \<longrightarrow> mode f = mode_0755))) \<or>
         (\<exists>m n e. fst R = Inl m \<and>
                e \<in> {MkdirSync (binDir_of E), WriteFileSync binPath (stub_for (os_platform E)),
                     ChmodSync binPath mode_0755} \<and>
                io_fault E n e = Some m)"
      unfolding R_def binPath_def by blast
    have tr: "trace w' = trace w @ (evs @ evs2)" using k(1) g(1) w' by simp
    have nI: "installed_line E \<notin> set (evs @ evs2)" using noI k(2) by simp
    from k(3) show ?thesis
    proof (elim disjE conjE exE)
      fix f assume "fst R = Inr ()" "list_ex (writes_to binPath) evs2"
        "fs (snd R) binPath = Some f" "content f = stub_for (os_platform E)"
        "os_platform E \<noteq> ''win32'' \<longrightarrow> mode f = mode_0755"
      then have "c = Returned () \<and> installed_line E \<notin> set (evs @ evs2) \<and>
          list_ex (writes_to binPath) (evs @ evs2) \<and>
          (\<exists>f. fs w' binPath = Some f \<and> content f = stub_for (os_platform E) \<and>
            (os_platform E \<noteq> ''win32'' \<longrightarrow> mode f = mode_0755))"
        using c w' nI by simp
      with tr show ?thesis by blast
    next
      fix m n e assume "fst R = Inl m"
        "e \<in> {MkdirSync (binDir_of E), WriteFileSync binPath (stub_for (os_platform E)),
              ChmodSync binPath mode_0755}"
        "io_fault E n e = Some m"
      then have "\<exists>m n e. c = Threw m \<and> installed_line E \<notin> set (evs @ evs2) \<and>
          e \<in> {MkdirSync (binDir_of E), WriteFileSync binPath (stub_for (os_platform E)),
               ChmodSync binPath mode_0755} \<and>
          io_fault E n e = Some m"
        using c nI by auto
      with tr show ?thesis by blast
    qed
  qed
qed

section \<open>A run that succeeds\<close>

lemma install_extracts:
  fixes E :: env and w wd :: world and t data :: string
  defines "binPath \<equiv> binPath_of E (os_platform E)"
    and "tmp \<equiv> tmpFile_of E (archive_ext t)"
  assumes t: "map_of targets (platform_key (os_platform E) (os_arch E)) = Some t"
    and absent: "\<not> existsSync w binPath"
    and dl: "download E (getDownloadUrl E t) (announce E t w) = Some (Returned data, wd)"
    and mk: "\<forall>n. io_fault E n (MkdirSync (binDir_of E)) = None"
    and wr: "\<forall>n. io_fault E n (WriteFileSync tmp data) = None"
    and ok: "tool_error (archive_tool E (extract_command E t) data) = None"
    and px: "os_platform E \<noteq> ''win32'' \<longrightarrow>
       (\<forall>n. io_fault E n (ChmodSync binPath mode_0755) = None) \<and>
       [BINARY_NAME] \<in> fst ` set (extracted (archive_tool E (extract_command E t) data))"
  shows "\<exists>w'. install E w = Some (Returned (), w') \<and>
           trace w' = trace wd @
             [downloaded_line data, MkdirSync (binDir_of E), WriteFileSync tmp data,
              ExecSync (extract_command E t), UnlinkSync tmp] @
             (if os_platform E \<noteq> ''win32'' then [ChmodSync binPath mode_0755] else []) @
             [installed_line E] \<and>
           (os_platform E \<noteq> ''win32'' \<longrightarrow> (\<exists>f. fs w' binPath = Some f \<and> mode f = mode_0755))"
proof -
  define R where "R = install_extract E (resolved E t) data wd"
  have inst: "install E w = (case fst R of Inr u \<Rightarrow> Some (Returned (), snd R)
      | Inl msg \<Rightarrow> Some (to_completion (install_catch E (resolved E t) msg (snd R))))"
    using absent dl unfolding install_unfold [OF t] binPath_def
    by (simp add: install_try_def R_def to_completion_def split: prod.splits sum.splits)
  have there: "binPath \<in> (\<lambda>r. binDir_of E @ r) ` fst ` set (extracted (archive_tool E (extract_command E t) data))"
    if "os_platform E \<noteq> ''win32''"
    using px that by (simp add: binPath_def binPath_of_eq BINARY_NAME_def image_iff)
  have ch: "\<forall>n. io_fault E n (ChmodSync binPath mode_0755) = None" if "os_platform E \<noteq> ''win32''"
    using px that by simp
  from install_extract_cases [of E t data wd]
  have "fst R = Inr () \<and>
        trace (snd R) = trace wd @
             [downloaded_line data, MkdirSync (binDir_of E), WriteFileSync tmp data,
              ExecSync (extract_command E t), UnlinkSync tmp] @
             (if os_platform E \<noteq> ''win32'' then [ChmodSync binPath mode_0755] else []) @
             [installed_line E] \<and>
        (os_platform E \<noteq> ''win32'' \<longrightarrow> (\<exists>f. fs (snd R) binPath = Some f \<and> mode f = mode_0755))"
    unfolding R_def [symmetric] binPath_def [symmetric] tmp_def [symmetric]
    using mk wr ok there ch by (elim disjE conjE exE) simp_all
  then show ?thesis using inst by simp
qed

lemma install_succeeds:
  fixes E :: env and w wd :: world and t data :: string
  defines "binPath \<equiv> binPath_of E (os_platform E)"
    and "tmp \<equiv> tmpFile_of E (archive_ext t)"
  assumes t: "map_of targets (platform_key (os_platform E) (os_arch E)) = Some t"
    and posix: "os_platform E \<noteq> ''win32''"
    and absent: "\<not> existsSync w binPath"
    and dl: "download E (getDownloadUrl E t) (announce E t w) = Some (Returned data, wd)"
    and mk: "\<forall>n. io_fault E n (MkdirSync (binDir_of E)) = None"
    and wr: "\<forall>n. io_fault E n (WriteFileSync tmp data) = None"
    and ch: "\<forall>n. io_fault E n (ChmodSync binPath mode_0755) = None"
    and ok: "tool_error (archive_tool E (extract_command E t) data) = None"
    and bin: "[BINARY_NAME] \<in> fst ` set (extracted (archive_tool E (extract_command E t) data))"
  shows "\<exists>w'. install E w = Some (Returned (), w') \<and>
           trace w' = trace wd @
             [downloaded_line data, MkdirSync (binDir_of E), WriteFileSync tmp data,
              ExecSync (extract_command E t), UnlinkSync tmp, ChmodSync binPath mode_0755,
              installed_line E] \<and>
           (\<exists>f. fs w' binPath = Some f \<and> mode f = mode_0755)"
proof -
  have px: "os_platform E \<noteq> ''win32'' \<longrightarrow>
       (\<forall>n. io_fault E n (ChmodSync (binPath_of E (os_platform E)) mode_0755) = None) \<and>
       [BINARY_NAME] \<in> fst ` set (extracted (archive_tool E (extract_command E t) data))"
    using ch bin by (simp add: binPath_def)
  from install_extracts [OF t absent [unfolded binPath_def] dl mk wr [unfolded tmp_def] ok px]
  show ?thesis using posix by (simp add: binPath_def tmp_def)
qed

lemmas run_defs = install_def getPlatformTarget_def install_try_def install_extract_def
  install_catch_def download_def to_completion_def Let_def then_io_def return_io_def
  mkdirSync_def writeFileSync_def unlinkSync_def chmodSync_def execSync_def extractTarGz_def
  extractZip_def finally_ignoring_def existsSync_def emit_def getDownloadUrl_def
  binPath_of_def binDir_of_def tmpFile_of_def path_join_def show_path_def platform_key_def
  targets_def REPO_def BINARY_NAME_def mode_0755_def toFixed1_MB_def digit_def dq_def
  stub_for_def redirect_target_def status_error_def announce_def installed_line_def
  already_line_def downloaded_line_def archive_ext_def extract_command_def tar_command_def
  unzip_command_def new_events_def supported_def client_for_def get_refuses_def
  url_scheme_def url_trim_def lower_char_def scheme_name_def

lemmas host_defs = linux_host_def readonly_host_def stub_host_def bare_redirect_host_def
  empty_location_host_def broken_archive_host_def win32_arm64_host_def empty_world_def
  installed_world_def no_fault_def readonly_fault_def unlink_fault_def tool_unpacks_def
  tool_fails_def net_redirect_once_def net_404_def net_302_bare_def
  net_302_empty_location_def mirror_url_def release_url_def no_url_fault_def
  relative_redirect_host_def redirect_then_bare_host_def net_302_relative_def
  net_redirect_then_bare_def relative_location_def win32_host_def

text \<open>
  C7. On a supported platform other than win32, with nothing at the destination: when the
  download resolves with the bytes of the archive (which it does on a 200 response only),
  the directory, the temporary file and the mode can be written, and the archive tool exits
  with 0 having unpacked the binary, then install returns; after the download it has made the
  directory, written, unpacked and deleted the archive, set the mode and printed the path,
  in this order; the file at the destination has mode 0755; and no write to the destination
  path, so no stub write, has happened.
\<close>

theorem install_success_mode_0755:
  assumes "map_of targets (platform_key (os_platform E) (os_arch E)) = Some t"
    and "os_platform E \<noteq> ''win32''"
    and "\<not> existsSync w (binPath_of E (os_platform E))"
    and "download E (getDownloadUrl E t) (announce E t w) = Some (Returned data, wd)"
    and "\<forall>n. io_fault E n (MkdirSync (binDir_of E)) = None"
    and "\<forall>n. io_fault E n (WriteFileSync (tmpFile_of E (archive_ext t)) data) = None"
    and "\<forall>n. io_fault E n (ChmodSync (binPath_of E (os_platform E)) mode_0755) = None"
    and "tool_error (archive_tool E (extract_command E t) data) = None"
    and "[BINARY_NAME] \<in> fst ` set (extracted (archive_tool E (extract_command E t) data))"
  shows "\<exists>w'. install E w = Some (Returned (), w') \<and>
           (\<exists>f. fs w' (binPath_of E (os_platform E)) = Some f \<and> mode f = mode_0755) \<and>
           new_events wd w' =
             [downloaded_line data, MkdirSync (binDir_of E),
              WriteFileSync (tmpFile_of E (archive_ext t)) data,
              ExecSync (extract_command E t), UnlinkSync (tmpFile_of E (archive_ext t)),
              ChmodSync (binPath_of E (os_platform E)) mode_0755, installed_line E] \<and>
           \<not> list_ex (writes_to (binPath_of E (os_platform E))) (new_events w w')"
proof -
  from install_succeeds [OF assms] obtain w' where
    r: "install E w = Some (Returned (), w')"
    and tr: "trace w' = trace wd @
             [downloaded_line data, MkdirSync (binDir_of E),
              WriteFileSync (tmpFile_of E (archive_ext t)) data,
              ExecSync (extract_command E t), UnlinkSync (tmpFile_of E (archive_ext t)),
              ChmodSync (binPath_of E (os_platform E)) mode_0755, installed_line E]"
    and f: "\<exists>f. fs w' (binPath_of E (os_platform E)) = Some f \<and> mode f = mode_0755"
    by blast
  from download_effects(2) [OF assms(4)] obtain nets where
    n: "trace wd = trace (announce E t w) @ nets" "list_all is_NetGet nets" by blast
  have "new_events w w' =
      [ConsoleLog (''Downloading ai-statusline v'' @ VERSION E @ '' for '' @ t @ ''...''),
       ConsoleLog (''  URL: '' @ getDownloadUrl E t)] @ nets @
      [downloaded_line data, MkdirSync (binDir_of E),
       WriteFileSync (tmpFile_of E (archive_ext t)) data,
       ExecSync (extract_command E t), UnlinkSync (tmpFile_of E (archive_ext t)),
       ChmodSync (binPath_of E (os_platform E)) mode_0755, installed_line E]"
    by (simp add: new_events_def tr n(1) trace_announce)
  then have "\<not> list_ex (writes_to (binPath_of E (os_platform E))) (new_events w w')"
    using NetGet_only(1) [OF n(2)] by (simp add: downloaded_line_def installed_line_def)
  moreover have "new_events wd w' =
             [downloaded_line data, MkdirSync (binDir_of E),
              WriteFileSync (tmpFile_of E (archive_ext t)) data,
              ExecSync (extract_command E t), UnlinkSync (tmpFile_of E (archive_ext t)),
              ChmodSync (binPath_of E (os_platform E)) mode_0755, installed_line E]"
    by (simp add: new_events_def tr)
  ultimately show ?thesis using r f by blast
qed

theorem install_success_mode_0755_witness:
  "\<exists>w'. install linux_host empty_world = Some (Returned (), w') \<and>
     (\<exists>f. fs w' [''pkg'', ''bin'', ''ai-statusline''] = Some f \<and> mode f = 493) \<and>
     \<not> list_ex (writes_to [''pkg'', ''bin'', ''ai-statusline'']) (new_events empty_world w')"
proof -
  have dl: "download linux_host (getDownloadUrl linux_host ''x86_64-unknown-linux-gnu'')
      (announce linux_host ''x86_64-unknown-linux-gnu'' empty_world) =
    Some (Returned ''ARCHIVE'',
      emit (NetGet Https mirror_url) (emit (NetGet Https release_url)
        (announce linux_host ''x86_64-unknown-linux-gnu'' empty_world)))"
    by (simp add: run_defs host_defs get_handler.simps)
  have t: "map_of targets (platform_key (os_platform linux_host) (os_arch linux_host)) =
      Some ''x86_64-unknown-linux-gnu''"
    by (simp add: run_defs host_defs)
  have bp: "binPath_of linux_host (os_platform linux_host) = [''pkg'', ''bin'', ''ai-statusline'']"
    by (simp add: run_defs host_defs)
  have px: "os_platform linux_host \<noteq> ''win32''" by (simp add: linux_host_def)
  have ab: "\<not> existsSync empty_world (binPath_of linux_host (os_platform linux_host))"
    by (simp add: existsSync_def empty_world_def)
  have nf: "\<forall>n. io_fault linux_host n (MkdirSync (binDir_of linux_host)) = None"
    "\<forall>n. io_fault linux_host n
       (WriteFileSync (tmpFile_of linux_host (archive_ext ''x86_64-unknown-linux-gnu'')) ''ARCHIVE'') = None"
    "\<forall>n. io_fault linux_host n
       (ChmodSync (binPath_of linux_host (os_platform linux_host)) mode_0755) = None"
    by (simp_all add: linux_host_def no_fault_def)
  have tool: "tool_error (archive_tool linux_host
        (extract_command linux_host ''x86_64-unknown-linux-gnu'') ''ARCHIVE'') = None"
    "[BINARY_NAME] \<in> fst ` set (extracted (archive_tool linux_host
        (extract_command linux_host ''x86_64-unknown-linux-gnu'') ''ARCHIVE''))"
    by (simp_all add: linux_host_def tool_unpacks_def BINARY_NAME_def)
  from install_success_mode_0755 [OF t px ab dl nf tool] show ?thesis
    unfolding bp by (auto simp: mode_0755_def)
qed



section \<open>Redirects\<close>


lemma mirror_url_nonempty [simp]: "mirror_url \<noteq> []"
  by (simp add: mirror_url_def)

lemma net_chain_host [simp]: "net (chain_host k) = net_chain k"
  by (simp add: chain_host_def)

lemma chain_host_takes_mirror [simp]: "get_refuses (chain_host k) Https mirror_url = None"
  by (simp add: get_refuses_def url_scheme_def url_trim_def lower_char_def scheme_name_def
      mirror_url_def chain_host_def linux_host_def no_url_fault_def)









section \<open>Extraction or stub\<close>

lemma install_ends:
  assumes t: "map_of targets (platform_key (os_platform E) (os_arch E)) = Some t"
    and absent: "\<not> existsSync w (binPath_of E (os_platform E))"
    and dl: "download E (getDownloadUrl E t) (announce E t w) = Some (d, wd)"
  shows "\<exists>c w'. install E w = Some (c, w')"
proof -
  have "\<exists>r w2. install_try E (resolved E t) (getDownloadUrl E t) (announce E t w) = Some (r, w2)"
    using dl by (cases d) (simp_all add: install_try_def)
  then obtain r w2 where
    "install_try E (resolved E t) (getDownloadUrl E t) (announce E t w) = Some (r, w2)"
    by blast
  then show ?thesis
    unfolding install_unfold [OF t] using absent by (cases r) simp_all
qed

lemma installer_main_of:
  assumes "install E w = Some (c, w')"
  shows "installer_main E w =
           Some (case c of
                   Returned u \<Rightarrow> (0, w')
                 | Threw msg \<Rightarrow> (1, emit (ConsoleError (''Installation failed: '' @ msg)) w')
                 | Exited n \<Rightarrow> (n, w')
                 | Uncaught msg \<Rightarrow> (1, w'))"
  using assms by (cases c) (simp_all add: installer_main_def)

text \<open>
  C1, as the code has it. On a supported platform with nothing at the destination, when the
  download settles (it resolves or rejects), install either returns or throws. When it
  returns, the process exits with status 0 and exactly one of two things has happened: the
  guarded steps ran to their end, the line with the installed path was printed and nothing
  was written to the destination path by install itself (and on a platform other than win32
  the file is there with mode 0755); or the stub was written to the destination path, which
  holds it (with mode 0755 on a platform other than win32). It throws only when a file-system
  call of the fallback itself failed; then the guarded steps had not run to their end either,
  the failure is printed and the process exits with status 1. On an unsupported platform the
  process exits with status 1 and no file is touched.
\<close>

theorem install_one_of_two:
  "(\<forall>t d wd.
      map_of targets (platform_key (os_platform E) (os_arch E)) = Some t \<and>
      \<not> existsSync w (binPath_of E (os_platform E)) \<and>
      download E (getDownloadUrl E t) (announce E t w) = Some (d, wd) \<and> settles d \<longrightarrow>
      (\<exists>c w'. install E w = Some (c, w') \<and>
        ((c = Returned () \<and> installer_main E w = Some (0, w') \<and>
          (installed_line E \<in> set (new_events w w')) \<noteq>
            list_ex (writes_to (binPath_of E (os_platform E))) (new_events w w') \<and>
          (installed_line E \<in> set (new_events w w') \<and> os_platform E \<noteq> ''win32'' \<longrightarrow>
             (\<exists>f. fs w' (binPath_of E (os_platform E)) = Some f \<and> mode f = mode_0755)) \<and>
          (list_ex (writes_to (binPath_of E (os_platform E))) (new_events w w') \<longrightarrow>
             (\<exists>f. fs w' (binPath_of E (os_platform E)) = Some f \<and>
                  content f = stub_for (os_platform E) \<and>
                  (os_platform E \<noteq> ''win32'' \<longrightarrow> mode f = mode_0755)))) \<or>
         (\<exists>m n e. c = Threw m \<and>
             installer_main E w =
               Some (1, emit (ConsoleError (''Installation failed: '' @ m)) w') \<and>
             e \<in> fallback_calls E \<and> io_fault E n e = Some m \<and>
             installed_line E \<notin> set (new_events w w'))))) \<and>
   (\<not> supported E \<longrightarrow>
      (\<exists>w1. install E w = Some (Exited 1, w1) \<and> fs w1 = fs w \<and>
            installer_main E w = Some (1, w1)))"
proof (intro conjI impI allI)
  fix t d wd
  assume h: "map_of targets (platform_key (os_platform E) (os_arch E)) = Some t \<and>
      \<not> existsSync w (binPath_of E (os_platform E)) \<and>
      download E (getDownloadUrl E t) (announce E t w) = Some (d, wd) \<and> settles d"
  then have t: "map_of targets (platform_key (os_platform E) (os_arch E)) = Some t"
    and absent: "\<not> existsSync w (binPath_of E (os_platform E))"
    and dl: "download E (getDownloadUrl E t) (announce E t w) = Some (d, wd)"
    and st: "settles d"
    by simp_all
  have sup: "supported E" using t by (simp add: supported_def)
  from install_ends [OF t absent dl] obtain c w' where inst: "install E w = Some (c, w')"
    by blast
  note main = installer_main_of [OF inst]
  from install_outcomes [OF sup absent inst] obtain evs where
    tr: "trace w' = trace w @ evs"
    and o: "(c = Returned () \<and> installed_line E \<in> set evs \<and>
         \<not> list_ex (writes_to (binPath_of E (os_platform E))) evs \<and>
         (os_platform E \<noteq> ''win32'' \<longrightarrow>
            (\<exists>f. fs w' (binPath_of E (os_platform E)) = Some f \<and> mode f = mode_0755))) \<or>
        (c = Returned () \<and> installed_line E \<notin> set evs \<and>
         list_ex (writes_to (binPath_of E (os_platform E))) evs \<and>
         (\<exists>f. fs w' (binPath_of E (os_platform E)) = Some f \<and>
              content f = stub_for (os_platform E) \<and>
              (os_platform E \<noteq> ''win32'' \<longrightarrow> mode f = mode_0755))) \<or>
        (\<exists>m n e. c = Threw m \<and> installed_line E \<notin> set evs \<and>
            e \<in> {MkdirSync (binDir_of E),
                 WriteFileSync (binPath_of E (os_platform E)) (stub_for (os_platform E)),
                 ChmodSync (binPath_of E (os_platform E)) mode_0755} \<and>
            io_fault E n e = Some m) \<or>
        (\<exists>m t. c = Uncaught m \<and> installed_line E \<notin> set evs \<and>
            \<not> list_ex (writes_to (binPath_of E (os_platform E))) evs \<and> fs w' = fs w \<and>
            map_of targets (platform_key (os_platform E) (os_arch E)) = Some t \<and>
            download E (getDownloadUrl E t) (announce E t w) = Some (Uncaught m, w'))"
    by blast
  have ne: "new_events w w' = evs" by (simp add: new_events_def tr)
  have no: "\<not> (\<exists>m t. c = Uncaught m \<and> installed_line E \<notin> set evs \<and>
            \<not> list_ex (writes_to (binPath_of E (os_platform E))) evs \<and> fs w' = fs w \<and>
            map_of targets (platform_key (os_platform E) (os_arch E)) = Some t \<and>
            download E (getDownloadUrl E t) (announce E t w) = Some (Uncaught m, w'))"
    using t dl st by (auto simp: settles_def)
  have "(c = Returned () \<and> installer_main E w = Some (0, w') \<and>
          (installed_line E \<in> set (new_events w w')) \<noteq>
            list_ex (writes_to (binPath_of E (os_platform E))) (new_events w w') \<and>
          (installed_line E \<in> set (new_events w w') \<and> os_platform E \<noteq> ''win32'' \<longrightarrow>
             (\<exists>f. fs w' (binPath_of E (os_platform E)) = Some f \<and> mode f = mode_0755)) \<and>
          (list_ex (writes_to (binPath_of E (os_platform E))) (new_events w w') \<longrightarrow>
             (\<exists>f. fs w' (binPath_of E (os_platform E)) = Some f \<and>
                  content f = stub_for (os_platform E) \<and>
                  (os_platform E \<noteq> ''win32'' \<longrightarrow> mode f = mode_0755)))) \<or>
         (\<exists>m n e. c = Threw m \<and>
             installer_main E w =
               Some (1, emit (ConsoleError (''Installation failed: '' @ m)) w') \<and>
             e \<in> fallback_calls E \<and> io_fault E n e = Some m \<and>
             installed_line E \<notin> set (new_events w w'))"
    using o
  proof (elim disjE)
    assume a: "c = Returned () \<and> installed_line E \<in> set evs \<and>
         \<not> list_ex (writes_to (binPath_of E (os_platform E))) evs \<and>
         (os_platform E \<noteq> ''win32'' \<longrightarrow>
            (\<exists>f. fs w' (binPath_of E (os_platform E)) = Some f \<and> mode f = mode_0755))"
    with main have "installer_main E w = Some (0, w')" by simp
    with a show ?thesis by (simp add: ne)
  next
    assume a: "c = Returned () \<and> installed_line E \<notin> set evs \<and>
         list_ex (writes_to (binPath_of E (os_platform E))) evs \<and>
         (\<exists>f. fs w' (binPath_of E (os_platform E)) = Some f \<and>
              content f = stub_for (os_platform E) \<and>
              (os_platform E \<noteq> ''win32'' \<longrightarrow> mode f = mode_0755))"
    with main have "installer_main E w = Some (0, w')" by simp
    with a show ?thesis by (simp add: ne)
  next
    assume "\<exists>m n e. c = Threw m \<and> installed_line E \<notin> set evs \<and>
            e \<in> {MkdirSync (binDir_of E),
                 WriteFileSync (binPath_of E (os_platform E)) (stub_for (os_platform E)),
                 ChmodSync (binPath_of E (os_platform E)) mode_0755} \<and>
            io_fault E n e = Some m"
    then obtain m n e where a: "c = Threw m" "installed_line E \<notin> set evs"
      "e \<in> {MkdirSync (binDir_of E),
                 WriteFileSync (binPath_of E (os_platform E)) (stub_for (os_platform E)),
                 ChmodSync (binPath_of E (os_platform E)) mode_0755}"
      "io_fault E n e = Some m"
      by blast
    with main have "installer_main E w =
        Some (1, emit (ConsoleError (''Installation failed: '' @ m)) w')" by simp
    with a have "\<exists>m n e. c = Threw m \<and>
             installer_main E w =
               Some (1, emit (ConsoleError (''Installation failed: '' @ m)) w') \<and>
             e \<in> {MkdirSync (binDir_of E),
                 WriteFileSync (binPath_of E (os_platform E)) (stub_for (os_platform E)),
                 ChmodSync (binPath_of E (os_platform E)) mode_0755} \<and> io_fault E n e = Some m \<and>
             installed_line E \<notin> set evs"
      by blast
    then show ?thesis unfolding ne fallback_calls_def by (rule disjI2)
  next
    assume u: "\<exists>m t. c = Uncaught m \<and> installed_line E \<notin> set evs \<and>
            \<not> list_ex (writes_to (binPath_of E (os_platform E))) evs \<and> fs w' = fs w \<and>
            map_of targets (platform_key (os_platform E) (os_arch E)) = Some t \<and>
            download E (getDownloadUrl E t) (announce E t w) = Some (Uncaught m, w')"
    from no u show ?thesis by (rule notE)
  qed
  with inst show "\<exists>c w'. install E w = Some (c, w') \<and>
        ((c = Returned () \<and> installer_main E w = Some (0, w') \<and>
          (installed_line E \<in> set (new_events w w')) \<noteq>
            list_ex (writes_to (binPath_of E (os_platform E))) (new_events w w') \<and>
          (installed_line E \<in> set (new_events w w') \<and> os_platform E \<noteq> ''win32'' \<longrightarrow>
             (\<exists>f. fs w' (binPath_of E (os_platform E)) = Some f \<and> mode f = mode_0755)) \<and>
          (list_ex (writes_to (binPath_of E (os_platform E))) (new_events w w') \<longrightarrow>
             (\<exists>f. fs w' (binPath_of E (os_platform E)) = Some f \<and>
                  content f = stub_for (os_platform E) \<and>
                  (os_platform E \<noteq> ''win32'' \<longrightarrow> mode f = mode_0755)))) \<or>
         (\<exists>m n e. c = Threw m \<and>
             installer_main E w =
               Some (1, emit (ConsoleError (''Installation failed: '' @ m)) w') \<and>
             e \<in> fallback_calls E \<and> io_fault E n e = Some m \<and>
             installed_line E \<notin> set (new_events w w')))"
    by blast
next
  assume "\<not> supported E"
  from install_unsupported [OF this] obtain w1 where
    i: "install E w = Some (Exited 1, w1)" and f: "fs w1 = fs w" by blast
  from installer_main_of [OF i] have "installer_main E w = Some (1, w1)" by simp
  with i f show "\<exists>w1. install E w = Some (Exited 1, w1) \<and> fs w1 = fs w \<and>
            installer_main E w = Some (1, w1)"
    by blast
qed

theorem install_one_of_two_witness:
  "\<exists>w'. install stub_host empty_world = Some (Returned (), w') \<and>
     installer_main stub_host empty_world = Some (0, w') \<and>
     installed_line stub_host \<notin> set (new_events empty_world w') \<and>
     (\<exists>f. fs w' [''pkg'', ''bin'', ''ai-statusline''] = Some f \<and> content f = stub_posix \<and>
          mode f = 493)"
proof -
  have t: "map_of targets (platform_key (os_platform stub_host) (os_arch stub_host)) =
      Some ''x86_64-unknown-linux-gnu''"
    by (simp add: run_defs host_defs)
  have ab: "\<not> existsSync empty_world (binPath_of stub_host (os_platform stub_host))"
    by (simp add: existsSync_def empty_world_def)
  have bp: "binPath_of stub_host (os_platform stub_host) = [''pkg'', ''bin'', ''ai-statusline'']"
    by (simp add: run_defs host_defs)
  have dl: "download stub_host (getDownloadUrl stub_host ''x86_64-unknown-linux-gnu'')
      (announce stub_host ''x86_64-unknown-linux-gnu'' empty_world) =
    Some (Threw (''Download failed with status 404: '' @ release_url),
      emit (NetGet Https release_url)
        (announce stub_host ''x86_64-unknown-linux-gnu'' empty_world))"
    by (simp add: run_defs host_defs get_handler.simps)
  have st: "settles (Threw (''Download failed with status 404: '' @ release_url) :: string completion)"
    by (simp add: settles_def)
  have "\<exists>w'. install stub_host empty_world = Some (Returned (), w') \<and>
      list_ex (writes_to [''pkg'', ''bin'', ''ai-statusline'']) (new_events empty_world w')"
    by (simp add: run_defs host_defs get_handler.simps)
  then obtain w0 where r: "install stub_host empty_world = Some (Returned (), w0)"
    and s: "list_ex (writes_to [''pkg'', ''bin'', ''ai-statusline'']) (new_events empty_world w0)"
    by blast
  have px: "stub_for (os_platform stub_host) = stub_posix" "os_platform stub_host \<noteq> ''win32''"
    by (simp_all add: stub_for_def stub_host_def linux_host_def)
  from install_one_of_two [of stub_host empty_world, THEN conjunct1, rule_format,
      OF conjI [OF t conjI [OF ab conjI [OF dl st]]]]
  have "installer_main stub_host empty_world = Some (0, w0) \<and>
     installed_line stub_host \<notin> set (new_events empty_world w0) \<and>
     (\<exists>f. fs w0 [''pkg'', ''bin'', ''ai-statusline''] = Some f \<and> content f = stub_posix \<and>
          mode f = mode_0755)"
    using r s px(2) unfolding bp px(1) by auto
  with r show ?thesis by (auto simp: mode_0755_def)
qed

text \<open>
  C1 as stated fails when the download fails and the package directory cannot be written:
  the fallback's \<open>mkdirSync\<close> throws, install rejects, the process prints the failure and exits
  with status 1; nothing was extracted and no stub was written.
\<close>

theorem readonly_install_leaves_nothing:
  "supported readonly_host \<and>
   \<not> existsSync empty_world (binPath_of readonly_host (os_platform readonly_host)) \<and>
   installer_main readonly_host empty_world =
     Some (1,
       empty_world\<lparr>trace :=
         [ConsoleLog ''Downloading ai-statusline v1.2.0 for x86_64-unknown-linux-gnu...'',
          ConsoleLog (''  URL: '' @ release_url),
          NetGet Https release_url,
          ConsoleWarn (''\<newline>Failed to download pre-built binary: Download failed with status 404: '' @ release_url),
          ConsoleWarn ''\<newline>You can build from source instead:'',
          ConsoleWarn ''  cargo install --path .'',
          ConsoleWarn ''\<newline>Or download manually from:'',
          ConsoleWarn ''  https://github.com/mstuart/ai-statusline/releases'',
          MkdirSync [''pkg'', ''bin''],
          ConsoleError ''Installation failed: EACCES: permission denied'']\<rparr>)"
  by (simp add: installer_main_def run_defs host_defs get_handler.simps)

section \<open>A redirect the client refuses\<close>

text \<open>
  C3 does not hold of the code. On a linux-x64 host with nothing at the destination, the
  release URL is answered by a 302 whose Location is the relative reference
  \<open>/mirror/ai-statusline.tar.gz\<close>. The handler calls \<open>http.get\<close> with it inside the response
  callback; the call throws \<open>Invalid URL\<close> before any request goes out, and neither the
  promise nor the \<open>try\<close> block of install is on the stack to catch it. The process ends with
  status 1 after the one request: no warning is printed, no stub is written, no file is
  touched. So a download failure has produced a non-zero exit and was not absorbed into the
  stub fallback.
\<close>

theorem relative_redirect_exits_1:
  "supported relative_redirect_host \<and>
   \<not> existsSync empty_world (binPath_of relative_redirect_host (os_platform relative_redirect_host)) \<and>
   net relative_redirect_host 2 Https release_url =
     Response \<lparr>statusCode = 302, location = Some ''/mirror/ai-statusline.tar.gz'',
               body = BodyEnd []\<rparr> \<and>
   install relative_redirect_host empty_world =
     Some (Uncaught ''Invalid URL'',
       empty_world\<lparr>trace :=
         [ConsoleLog ''Downloading ai-statusline v1.2.0 for x86_64-unknown-linux-gnu...'',
          ConsoleLog (''  URL: '' @ release_url),
          NetGet Https release_url]\<rparr>) \<and>
   installer_main relative_redirect_host empty_world =
     Some (1,
       empty_world\<lparr>trace :=
         [ConsoleLog ''Downloading ai-statusline v1.2.0 for x86_64-unknown-linux-gnu...'',
          ConsoleLog (''  URL: '' @ release_url),
          NetGet Https release_url]\<rparr>)"
  by (simp add: installer_main_def run_defs host_defs get_handler.simps)

end
